theory Spec2Isabelle
  imports Main
begin

section \<open>Python strings\<close>

text \<open>
  A Python \<open>str\<close> is a sequence of Unicode code points. It is modelled as a list of
  natural numbers, one per code point; \<open>U\<close> embeds an ASCII literal.
\<close>

type_synonym ustr = "nat list"

definition U :: "string \<Rightarrow> ustr" where
  "U s = map of_char s"

text \<open>
  \<open>str.isspace\<close>, \<open>str.strip()\<close> and the regular-expression class \<open>\s\<close> share one set of
  code points (Unicode 14.0, as shipped with CPython 3.11).
\<close>

definition is_space :: "nat \<Rightarrow> bool" where
  "is_space c \<longleftrightarrow>
     (0x09 \<le> c \<and> c \<le> 0x0D) \<or> (0x1C \<le> c \<and> c \<le> 0x20) \<or> c = 0x85 \<or> c = 0xA0 \<or>
     c = 0x1680 \<or> (0x2000 \<le> c \<and> c \<le> 0x200A) \<or> c = 0x2028 \<or> c = 0x2029 \<or>
     c = 0x202F \<or> c = 0x205F \<or> c = 0x3000"

definition strip :: "ustr \<Rightarrow> ustr" where
  "strip s = rev (dropWhile is_space (rev (dropWhile is_space s)))"

fun startswith :: "ustr \<Rightarrow> ustr \<Rightarrow> bool" where
  "startswith s [] = True"
| "startswith [] (p # ps) = False"
| "startswith (c # cs) (p # ps) = (c = p \<and> startswith cs ps)"

text \<open>\<open>sub in s\<close> for strings.\<close>

fun contains :: "ustr \<Rightarrow> ustr \<Rightarrow> bool" where
  "contains [] sub = (sub = [])"
| "contains (c # cs) sub = (startswith (c # cs) sub \<or> contains cs sub)"

text \<open>
  \<open>s.replace(old, new)\<close>: every non-overlapping occurrence, leftmost first. For the empty
  pattern Python inserts \<open>new\<close> before every character and at the end.
\<close>

fun replace_nonempty :: "ustr \<Rightarrow> ustr \<Rightarrow> ustr \<Rightarrow> ustr" where
  "replace_nonempty old new [] = []"
| "replace_nonempty old new (c # cs) =
     (if startswith (c # cs) old
      then new @ replace_nonempty old new (drop (length old - 1) cs)
      else c # replace_nonempty old new cs)"

definition replace :: "ustr \<Rightarrow> ustr \<Rightarrow> ustr \<Rightarrow> ustr" where
  "replace s old new =
     (if old = [] then new @ concat (map (\<lambda>c. c # new) s) else replace_nonempty old new s)"

text \<open>\<open>s.replace(old, new, 1)\<close>: the first occurrence only.\<close>

fun replace_first_nonempty :: "ustr \<Rightarrow> ustr \<Rightarrow> ustr \<Rightarrow> ustr" where
  "replace_first_nonempty old new [] = []"
| "replace_first_nonempty old new (c # cs) =
     (if startswith (c # cs) old
      then new @ drop (length old - 1) cs
      else c # replace_first_nonempty old new cs)"

definition replace1 :: "ustr \<Rightarrow> ustr \<Rightarrow> ustr \<Rightarrow> ustr" where
  "replace1 s old new = (if old = [] then new @ s else replace_first_nonempty old new s)"

text \<open>
  \<open>str.title()\<close>: a character that follows a cased character is lower-cased, any other
  character is title-cased. The Unicode properties Cased and Case_Ignorable and the full
  title-case and lower-case mappings are those of Unicode 14.0, as shipped with CPython 3.11.
  A range is given by its first and last code point; a mapping entry \<open>(a, b, k, d)\<close> maps
  every \<open>k\<close>-th code point from \<open>a\<close> to \<open>b\<close> to the code point at distance \<open>d\<close>; the
  special entries map one code point to several.
\<close>

definition cased_ranges :: "(nat \<times> nat) list" where
  "cased_ranges =
     [      (0x41, 0x5A), (0x61, 0x7A), (0xAA, 0xAA), (0xB5, 0xB5), (0xBA, 0xBA), (0xC0, 0xD6),
      (0xD8, 0xF6), (0xF8, 0x1BA), (0x1BC, 0x1BF), (0x1C4, 0x293), (0x295, 0x2B8), (0x2C0, 0x2C1),
      (0x2E0, 0x2E4), (0x345, 0x345), (0x370, 0x373), (0x376, 0x377), (0x37A, 0x37D),
      (0x37F, 0x37F), (0x386, 0x386), (0x388, 0x38A), (0x38C, 0x38C), (0x38E, 0x3A1),
      (0x3A3, 0x3F5), (0x3F7, 0x481), (0x48A, 0x52F), (0x531, 0x556), (0x560, 0x588),
      (0x10A0, 0x10C5), (0x10C7, 0x10C7), (0x10CD, 0x10CD), (0x10D0, 0x10FA), (0x10FD, 0x10FF),
      (0x13A0, 0x13F5), (0x13F8, 0x13FD), (0x1C80, 0x1C88), (0x1C90, 0x1CBA), (0x1CBD, 0x1CBF),
      (0x1D00, 0x1DBF), (0x1E00, 0x1F15), (0x1F18, 0x1F1D), (0x1F20, 0x1F45), (0x1F48, 0x1F4D),
      (0x1F50, 0x1F57), (0x1F59, 0x1F59), (0x1F5B, 0x1F5B), (0x1F5D, 0x1F5D), (0x1F5F, 0x1F7D),
      (0x1F80, 0x1FB4), (0x1FB6, 0x1FBC), (0x1FBE, 0x1FBE), (0x1FC2, 0x1FC4), (0x1FC6, 0x1FCC),
      (0x1FD0, 0x1FD3), (0x1FD6, 0x1FDB), (0x1FE0, 0x1FEC), (0x1FF2, 0x1FF4), (0x1FF6, 0x1FFC),
      (0x2071, 0x2071), (0x207F, 0x207F), (0x2090, 0x209C), (0x2102, 0x2102), (0x2107, 0x2107),
      (0x210A, 0x2113), (0x2115, 0x2115), (0x2119, 0x211D), (0x2124, 0x2124), (0x2126, 0x2126),
      (0x2128, 0x2128), (0x212A, 0x212D), (0x212F, 0x2134), (0x2139, 0x2139), (0x213C, 0x213F),
      (0x2145, 0x2149), (0x214E, 0x214E), (0x2160, 0x217F), (0x2183, 0x2184), (0x24B6, 0x24E9),
      (0x2C00, 0x2CE4), (0x2CEB, 0x2CEE), (0x2CF2, 0x2CF3), (0x2D00, 0x2D25), (0x2D27, 0x2D27),
      (0x2D2D, 0x2D2D), (0xA640, 0xA66D), (0xA680, 0xA69D), (0xA722, 0xA787), (0xA78B, 0xA78E),
      (0xA790, 0xA7CA), (0xA7D0, 0xA7D1), (0xA7D3, 0xA7D3), (0xA7D5, 0xA7D9), (0xA7F5, 0xA7F6),
      (0xA7F8, 0xA7FA), (0xAB30, 0xAB5A), (0xAB5C, 0xAB68), (0xAB70, 0xABBF), (0xFB00, 0xFB06),
      (0xFB13, 0xFB17), (0xFF21, 0xFF3A), (0xFF41, 0xFF5A), (0x10400, 0x1044F),
      (0x104B0, 0x104D3), (0x104D8, 0x104FB), (0x10570, 0x1057A), (0x1057C, 0x1058A),
      (0x1058C, 0x10592), (0x10594, 0x10595), (0x10597, 0x105A1), (0x105A3, 0x105B1),
      (0x105B3, 0x105B9), (0x105BB, 0x105BC), (0x10780, 0x10780), (0x10783, 0x10785),
      (0x10787, 0x107B0), (0x107B2, 0x107BA), (0x10C80, 0x10CB2), (0x10CC0, 0x10CF2),
      (0x118A0, 0x118DF), (0x16E40, 0x16E7F), (0x1D400, 0x1D454), (0x1D456, 0x1D49C),
      (0x1D49E, 0x1D49F), (0x1D4A2, 0x1D4A2), (0x1D4A5, 0x1D4A6), (0x1D4A9, 0x1D4AC),
      (0x1D4AE, 0x1D4B9), (0x1D4BB, 0x1D4BB), (0x1D4BD, 0x1D4C3), (0x1D4C5, 0x1D505),
      (0x1D507, 0x1D50A), (0x1D50D, 0x1D514), (0x1D516, 0x1D51C), (0x1D51E, 0x1D539),
      (0x1D53B, 0x1D53E), (0x1D540, 0x1D544), (0x1D546, 0x1D546), (0x1D54A, 0x1D550),
      (0x1D552, 0x1D6A5), (0x1D6A8, 0x1D6C0), (0x1D6C2, 0x1D6DA), (0x1D6DC, 0x1D6FA),
      (0x1D6FC, 0x1D714), (0x1D716, 0x1D734), (0x1D736, 0x1D74E), (0x1D750, 0x1D76E),
      (0x1D770, 0x1D788), (0x1D78A, 0x1D7A8), (0x1D7AA, 0x1D7C2), (0x1D7C4, 0x1D7CB),
      (0x1DF00, 0x1DF09), (0x1DF0B, 0x1DF1E), (0x1E900, 0x1E943), (0x1F130, 0x1F149),
      (0x1F150, 0x1F169), (0x1F170, 0x1F189)]"

definition case_ignorable_ranges :: "(nat \<times> nat) list" where
  "case_ignorable_ranges =
     [      (0x27, 0x27), (0x2E, 0x2E), (0x3A, 0x3A), (0x5E, 0x5E), (0x60, 0x60), (0xA8, 0xA8),
      (0xAD, 0xAD), (0xAF, 0xAF), (0xB4, 0xB4), (0xB7, 0xB8), (0x2B0, 0x36F), (0x374, 0x375),
      (0x37A, 0x37A), (0x384, 0x385), (0x387, 0x387), (0x483, 0x489), (0x559, 0x559),
      (0x55F, 0x55F), (0x591, 0x5BD), (0x5BF, 0x5BF), (0x5C1, 0x5C2), (0x5C4, 0x5C5),
      (0x5C7, 0x5C7), (0x5F4, 0x5F4), (0x600, 0x605), (0x610, 0x61A), (0x61C, 0x61C),
      (0x640, 0x640), (0x64B, 0x65F), (0x670, 0x670), (0x6D6, 0x6DD), (0x6DF, 0x6E8),
      (0x6EA, 0x6ED), (0x70F, 0x70F), (0x711, 0x711), (0x730, 0x74A), (0x7A6, 0x7B0),
      (0x7EB, 0x7F5), (0x7FA, 0x7FA), (0x7FD, 0x7FD), (0x816, 0x82D), (0x859, 0x85B),
      (0x888, 0x888), (0x890, 0x891), (0x898, 0x89F), (0x8C9, 0x902), (0x93A, 0x93A),
      (0x93C, 0x93C), (0x941, 0x948), (0x94D, 0x94D), (0x951, 0x957), (0x962, 0x963),
      (0x971, 0x971), (0x981, 0x981), (0x9BC, 0x9BC), (0x9C1, 0x9C4), (0x9CD, 0x9CD),
      (0x9E2, 0x9E3), (0x9FE, 0x9FE), (0xA01, 0xA02), (0xA3C, 0xA3C), (0xA41, 0xA42),
      (0xA47, 0xA48), (0xA4B, 0xA4D), (0xA51, 0xA51), (0xA70, 0xA71), (0xA75, 0xA75),
      (0xA81, 0xA82), (0xABC, 0xABC), (0xAC1, 0xAC5), (0xAC7, 0xAC8), (0xACD, 0xACD),
      (0xAE2, 0xAE3), (0xAFA, 0xAFF), (0xB01, 0xB01), (0xB3C, 0xB3C), (0xB3F, 0xB3F),
      (0xB41, 0xB44), (0xB4D, 0xB4D), (0xB55, 0xB56), (0xB62, 0xB63), (0xB82, 0xB82),
      (0xBC0, 0xBC0), (0xBCD, 0xBCD), (0xC00, 0xC00), (0xC04, 0xC04), (0xC3C, 0xC3C),
      (0xC3E, 0xC40), (0xC46, 0xC48), (0xC4A, 0xC4D), (0xC55, 0xC56), (0xC62, 0xC63),
      (0xC81, 0xC81), (0xCBC, 0xCBC), (0xCBF, 0xCBF), (0xCC6, 0xCC6), (0xCCC, 0xCCD),
      (0xCE2, 0xCE3), (0xD00, 0xD01), (0xD3B, 0xD3C), (0xD41, 0xD44), (0xD4D, 0xD4D),
      (0xD62, 0xD63), (0xD81, 0xD81), (0xDCA, 0xDCA), (0xDD2, 0xDD4), (0xDD6, 0xDD6),
      (0xE31, 0xE31), (0xE34, 0xE3A), (0xE46, 0xE4E), (0xEB1, 0xEB1), (0xEB4, 0xEBC),
      (0xEC6, 0xEC6), (0xEC8, 0xECD), (0xF18, 0xF19), (0xF35, 0xF35), (0xF37, 0xF37),
      (0xF39, 0xF39), (0xF71, 0xF7E), (0xF80, 0xF84), (0xF86, 0xF87), (0xF8D, 0xF97),
      (0xF99, 0xFBC), (0xFC6, 0xFC6), (0x102D, 0x1030), (0x1032, 0x1037), (0x1039, 0x103A),
      (0x103D, 0x103E), (0x1058, 0x1059), (0x105E, 0x1060), (0x1071, 0x1074), (0x1082, 0x1082),
      (0x1085, 0x1086), (0x108D, 0x108D), (0x109D, 0x109D), (0x10FC, 0x10FC), (0x135D, 0x135F),
      (0x1712, 0x1714), (0x1732, 0x1733), (0x1752, 0x1753), (0x1772, 0x1773), (0x17B4, 0x17B5),
      (0x17B7, 0x17BD), (0x17C6, 0x17C6), (0x17C9, 0x17D3), (0x17D7, 0x17D7), (0x17DD, 0x17DD),
      (0x180B, 0x180F), (0x1843, 0x1843), (0x1885, 0x1886), (0x18A9, 0x18A9), (0x1920, 0x1922),
      (0x1927, 0x1928), (0x1932, 0x1932), (0x1939, 0x193B), (0x1A17, 0x1A18), (0x1A1B, 0x1A1B),
      (0x1A56, 0x1A56), (0x1A58, 0x1A5E), (0x1A60, 0x1A60), (0x1A62, 0x1A62), (0x1A65, 0x1A6C),
      (0x1A73, 0x1A7C), (0x1A7F, 0x1A7F), (0x1AA7, 0x1AA7), (0x1AB0, 0x1ACE), (0x1B00, 0x1B03),
      (0x1B34, 0x1B34), (0x1B36, 0x1B3A), (0x1B3C, 0x1B3C), (0x1B42, 0x1B42), (0x1B6B, 0x1B73),
      (0x1B80, 0x1B81), (0x1BA2, 0x1BA5), (0x1BA8, 0x1BA9), (0x1BAB, 0x1BAD), (0x1BE6, 0x1BE6),
      (0x1BE8, 0x1BE9), (0x1BED, 0x1BED), (0x1BEF, 0x1BF1), (0x1C2C, 0x1C33), (0x1C36, 0x1C37),
      (0x1C78, 0x1C7D), (0x1CD0, 0x1CD2), (0x1CD4, 0x1CE0), (0x1CE2, 0x1CE8), (0x1CED, 0x1CED),
      (0x1CF4, 0x1CF4), (0x1CF8, 0x1CF9), (0x1D2C, 0x1D6A), (0x1D78, 0x1D78), (0x1D9B, 0x1DFF),
      (0x1FBD, 0x1FBD), (0x1FBF, 0x1FC1), (0x1FCD, 0x1FCF), (0x1FDD, 0x1FDF), (0x1FED, 0x1FEF),
      (0x1FFD, 0x1FFE), (0x200B, 0x200F), (0x2018, 0x2019), (0x2024, 0x2024), (0x2027, 0x2027),
      (0x202A, 0x202E), (0x2060, 0x2064), (0x2066, 0x206F), (0x2071, 0x2071), (0x207F, 0x207F),
      (0x2090, 0x209C), (0x20D0, 0x20F0), (0x2C7C, 0x2C7D), (0x2CEF, 0x2CF1), (0x2D6F, 0x2D6F),
      (0x2D7F, 0x2D7F), (0x2DE0, 0x2DFF), (0x2E2F, 0x2E2F), (0x3005, 0x3005), (0x302A, 0x302D),
      (0x3031, 0x3035), (0x303B, 0x303B), (0x3099, 0x309E), (0x30FC, 0x30FE), (0xA015, 0xA015),
      (0xA4F8, 0xA4FD), (0xA60C, 0xA60C), (0xA66F, 0xA672), (0xA674, 0xA67D), (0xA67F, 0xA67F),
      (0xA69C, 0xA69F), (0xA6F0, 0xA6F1), (0xA700, 0xA721), (0xA770, 0xA770), (0xA788, 0xA78A),
      (0xA7F2, 0xA7F4), (0xA7F8, 0xA7F9), (0xA802, 0xA802), (0xA806, 0xA806), (0xA80B, 0xA80B),
      (0xA825, 0xA826), (0xA82C, 0xA82C), (0xA8C4, 0xA8C5), (0xA8E0, 0xA8F1), (0xA8FF, 0xA8FF),
      (0xA926, 0xA92D), (0xA947, 0xA951), (0xA980, 0xA982), (0xA9B3, 0xA9B3), (0xA9B6, 0xA9B9),
      (0xA9BC, 0xA9BD), (0xA9CF, 0xA9CF), (0xA9E5, 0xA9E6), (0xAA29, 0xAA2E), (0xAA31, 0xAA32),
      (0xAA35, 0xAA36), (0xAA43, 0xAA43), (0xAA4C, 0xAA4C), (0xAA70, 0xAA70), (0xAA7C, 0xAA7C),
      (0xAAB0, 0xAAB0), (0xAAB2, 0xAAB4), (0xAAB7, 0xAAB8), (0xAABE, 0xAABF), (0xAAC1, 0xAAC1),
      (0xAADD, 0xAADD), (0xAAEC, 0xAAED), (0xAAF3, 0xAAF4), (0xAAF6, 0xAAF6), (0xAB5B, 0xAB5F),
      (0xAB69, 0xAB6B), (0xABE5, 0xABE5), (0xABE8, 0xABE8), (0xABED, 0xABED), (0xFB1E, 0xFB1E),
      (0xFBB2, 0xFBC2), (0xFE00, 0xFE0F), (0xFE13, 0xFE13), (0xFE20, 0xFE2F), (0xFE52, 0xFE52),
      (0xFE55, 0xFE55), (0xFEFF, 0xFEFF), (0xFF07, 0xFF07), (0xFF0E, 0xFF0E), (0xFF1A, 0xFF1A),
      (0xFF3E, 0xFF3E), (0xFF40, 0xFF40), (0xFF70, 0xFF70), (0xFF9E, 0xFF9F), (0xFFE3, 0xFFE3),
      (0xFFF9, 0xFFFB), (0x101FD, 0x101FD), (0x102E0, 0x102E0), (0x10376, 0x1037A),
      (0x10780, 0x10785), (0x10787, 0x107B0), (0x107B2, 0x107BA), (0x10A01, 0x10A03),
      (0x10A05, 0x10A06), (0x10A0C, 0x10A0F), (0x10A38, 0x10A3A), (0x10A3F, 0x10A3F),
      (0x10AE5, 0x10AE6), (0x10D24, 0x10D27), (0x10EAB, 0x10EAC), (0x10F46, 0x10F50),
      (0x10F82, 0x10F85), (0x11001, 0x11001), (0x11038, 0x11046), (0x11070, 0x11070),
      (0x11073, 0x11074), (0x1107F, 0x11081), (0x110B3, 0x110B6), (0x110B9, 0x110BA),
      (0x110BD, 0x110BD), (0x110C2, 0x110C2), (0x110CD, 0x110CD), (0x11100, 0x11102),
      (0x11127, 0x1112B), (0x1112D, 0x11134), (0x11173, 0x11173), (0x11180, 0x11181),
      (0x111B6, 0x111BE), (0x111C9, 0x111CC), (0x111CF, 0x111CF), (0x1122F, 0x11231),
      (0x11234, 0x11234), (0x11236, 0x11237), (0x1123E, 0x1123E), (0x112DF, 0x112DF),
      (0x112E3, 0x112EA), (0x11300, 0x11301), (0x1133B, 0x1133C), (0x11340, 0x11340),
      (0x11366, 0x1136C), (0x11370, 0x11374), (0x11438, 0x1143F), (0x11442, 0x11444),
      (0x11446, 0x11446), (0x1145E, 0x1145E), (0x114B3, 0x114B8), (0x114BA, 0x114BA),
      (0x114BF, 0x114C0), (0x114C2, 0x114C3), (0x115B2, 0x115B5), (0x115BC, 0x115BD),
      (0x115BF, 0x115C0), (0x115DC, 0x115DD), (0x11633, 0x1163A), (0x1163D, 0x1163D),
      (0x1163F, 0x11640), (0x116AB, 0x116AB), (0x116AD, 0x116AD), (0x116B0, 0x116B5),
      (0x116B7, 0x116B7), (0x1171D, 0x1171F), (0x11722, 0x11725), (0x11727, 0x1172B),
      (0x1182F, 0x11837), (0x11839, 0x1183A), (0x1193B, 0x1193C), (0x1193E, 0x1193E),
      (0x11943, 0x11943), (0x119D4, 0x119D7), (0x119DA, 0x119DB), (0x119E0, 0x119E0),
      (0x11A01, 0x11A0A), (0x11A33, 0x11A38), (0x11A3B, 0x11A3E), (0x11A47, 0x11A47),
      (0x11A51, 0x11A56), (0x11A59, 0x11A5B), (0x11A8A, 0x11A96), (0x11A98, 0x11A99),
      (0x11C30, 0x11C36), (0x11C38, 0x11C3D), (0x11C3F, 0x11C3F), (0x11C92, 0x11CA7),
      (0x11CAA, 0x11CB0), (0x11CB2, 0x11CB3), (0x11CB5, 0x11CB6), (0x11D31, 0x11D36),
      (0x11D3A, 0x11D3A), (0x11D3C, 0x11D3D), (0x11D3F, 0x11D45), (0x11D47, 0x11D47),
      (0x11D90, 0x11D91), (0x11D95, 0x11D95), (0x11D97, 0x11D97), (0x11EF3, 0x11EF4),
      (0x13430, 0x13438), (0x16AF0, 0x16AF4), (0x16B30, 0x16B36), (0x16B40, 0x16B43),
      (0x16F4F, 0x16F4F), (0x16F8F, 0x16F9F), (0x16FE0, 0x16FE1), (0x16FE3, 0x16FE4),
      (0x1AFF0, 0x1AFF3), (0x1AFF5, 0x1AFFB), (0x1AFFD, 0x1AFFE), (0x1BC9D, 0x1BC9E),
      (0x1BCA0, 0x1BCA3), (0x1CF00, 0x1CF2D), (0x1CF30, 0x1CF46), (0x1D167, 0x1D169),
      (0x1D173, 0x1D182), (0x1D185, 0x1D18B), (0x1D1AA, 0x1D1AD), (0x1D242, 0x1D244),
      (0x1DA00, 0x1DA36), (0x1DA3B, 0x1DA6C), (0x1DA75, 0x1DA75), (0x1DA84, 0x1DA84),
      (0x1DA9B, 0x1DA9F), (0x1DAA1, 0x1DAAF), (0x1E000, 0x1E006), (0x1E008, 0x1E018),
      (0x1E01B, 0x1E021), (0x1E023, 0x1E024), (0x1E026, 0x1E02A), (0x1E130, 0x1E13D),
      (0x1E2AE, 0x1E2AE), (0x1E2EC, 0x1E2EF), (0x1E8D0, 0x1E8D6), (0x1E944, 0x1E94B),
      (0x1F3FB, 0x1F3FF), (0xE0001, 0xE0001), (0xE0020, 0xE007F), (0xE0100, 0xE01EF)]"

definition title_table :: "(nat \<times> nat \<times> nat \<times> int) list" where
  "title_table =
     [      (0x61, 0x7A, 1, - 32), (0xB5, 0xB5, 1, 743), (0xE0, 0xF6, 1, - 32), (0xF8, 0xFE, 1, - 32),
      (0xFF, 0xFF, 1, 121), (0x101, 0x12F, 2, - 1), (0x131, 0x131, 1, - 232),
      (0x133, 0x137, 2, - 1), (0x13A, 0x148, 2, - 1), (0x14B, 0x177, 2, - 1),
      (0x17A, 0x17E, 2, - 1), (0x17F, 0x17F, 1, - 300), (0x180, 0x180, 1, 195),
      (0x183, 0x185, 2, - 1), (0x188, 0x188, 1, - 1), (0x18C, 0x18C, 1, - 1),
      (0x192, 0x192, 1, - 1), (0x195, 0x195, 1, 97), (0x199, 0x199, 1, - 1),
      (0x19A, 0x19A, 1, 163), (0x19E, 0x19E, 1, 130), (0x1A1, 0x1A5, 2, - 1),
      (0x1A8, 0x1A8, 1, - 1), (0x1AD, 0x1AD, 1, - 1), (0x1B0, 0x1B0, 1, - 1),
      (0x1B4, 0x1B6, 2, - 1), (0x1B9, 0x1B9, 1, - 1), (0x1BD, 0x1BD, 1, - 1),
      (0x1BF, 0x1BF, 1, 56), (0x1C4, 0x1C4, 1, 1), (0x1C6, 0x1C6, 1, - 1), (0x1C7, 0x1C7, 1, 1),
      (0x1C9, 0x1C9, 1, - 1), (0x1CA, 0x1CA, 1, 1), (0x1CC, 0x1DC, 2, - 1),
      (0x1DD, 0x1DD, 1, - 79), (0x1DF, 0x1EF, 2, - 1), (0x1F1, 0x1F1, 1, 1),
      (0x1F3, 0x1F5, 2, - 1), (0x1F9, 0x21F, 2, - 1), (0x223, 0x233, 2, - 1),
      (0x23C, 0x23C, 1, - 1), (0x23F, 0x240, 1, 10815), (0x242, 0x242, 1, - 1),
      (0x247, 0x24F, 2, - 1), (0x250, 0x250, 1, 10783), (0x251, 0x251, 1, 10780),
      (0x252, 0x252, 1, 10782), (0x253, 0x253, 1, - 210), (0x254, 0x254, 1, - 206),
      (0x256, 0x257, 1, - 205), (0x259, 0x259, 1, - 202), (0x25B, 0x25B, 1, - 203),
      (0x25C, 0x25C, 1, 42319), (0x260, 0x260, 1, - 205), (0x261, 0x261, 1, 42315),
      (0x263, 0x263, 1, - 207), (0x265, 0x265, 1, 42280), (0x266, 0x266, 1, 42308),
      (0x268, 0x268, 1, - 209), (0x269, 0x269, 1, - 211), (0x26A, 0x26A, 1, 42308),
      (0x26B, 0x26B, 1, 10743), (0x26C, 0x26C, 1, 42305), (0x26F, 0x26F, 1, - 211),
      (0x271, 0x271, 1, 10749), (0x272, 0x272, 1, - 213), (0x275, 0x275, 1, - 214),
      (0x27D, 0x27D, 1, 10727), (0x280, 0x280, 1, - 218), (0x282, 0x282, 1, 42307),
      (0x283, 0x283, 1, - 218), (0x287, 0x287, 1, 42282), (0x288, 0x288, 1, - 218),
      (0x289, 0x289, 1, - 69), (0x28A, 0x28B, 1, - 217), (0x28C, 0x28C, 1, - 71),
      (0x292, 0x292, 1, - 219), (0x29D, 0x29D, 1, 42261), (0x29E, 0x29E, 1, 42258),
      (0x345, 0x345, 1, 84), (0x371, 0x373, 2, - 1), (0x377, 0x377, 1, - 1),
      (0x37B, 0x37D, 1, 130), (0x3AC, 0x3AC, 1, - 38), (0x3AD, 0x3AF, 1, - 37),
      (0x3B1, 0x3C1, 1, - 32), (0x3C2, 0x3C2, 1, - 31), (0x3C3, 0x3CB, 1, - 32),
      (0x3CC, 0x3CC, 1, - 64), (0x3CD, 0x3CE, 1, - 63), (0x3D0, 0x3D0, 1, - 62),
      (0x3D1, 0x3D1, 1, - 57), (0x3D5, 0x3D5, 1, - 47), (0x3D6, 0x3D6, 1, - 54),
      (0x3D7, 0x3D7, 1, - 8), (0x3D9, 0x3EF, 2, - 1), (0x3F0, 0x3F0, 1, - 86),
      (0x3F1, 0x3F1, 1, - 80), (0x3F2, 0x3F2, 1, 7), (0x3F3, 0x3F3, 1, - 116),
      (0x3F5, 0x3F5, 1, - 96), (0x3F8, 0x3F8, 1, - 1), (0x3FB, 0x3FB, 1, - 1),
      (0x430, 0x44F, 1, - 32), (0x450, 0x45F, 1, - 80), (0x461, 0x481, 2, - 1),
      (0x48B, 0x4BF, 2, - 1), (0x4C2, 0x4CE, 2, - 1), (0x4CF, 0x4CF, 1, - 15),
      (0x4D1, 0x52F, 2, - 1), (0x561, 0x586, 1, - 48), (0x13F8, 0x13FD, 1, - 8),
      (0x1C80, 0x1C80, 1, - 6254), (0x1C81, 0x1C81, 1, - 6253), (0x1C82, 0x1C82, 1, - 6244),
      (0x1C83, 0x1C84, 1, - 6242), (0x1C85, 0x1C85, 1, - 6243), (0x1C86, 0x1C86, 1, - 6236),
      (0x1C87, 0x1C87, 1, - 6181), (0x1C88, 0x1C88, 1, 35266), (0x1D79, 0x1D79, 1, 35332),
      (0x1D7D, 0x1D7D, 1, 3814), (0x1D8E, 0x1D8E, 1, 35384), (0x1E01, 0x1E95, 2, - 1),
      (0x1E9B, 0x1E9B, 1, - 59), (0x1EA1, 0x1EFF, 2, - 1), (0x1F00, 0x1F07, 1, 8),
      (0x1F10, 0x1F15, 1, 8), (0x1F20, 0x1F27, 1, 8), (0x1F30, 0x1F37, 1, 8),
      (0x1F40, 0x1F45, 1, 8), (0x1F51, 0x1F57, 2, 8), (0x1F60, 0x1F67, 1, 8),
      (0x1F70, 0x1F71, 1, 74), (0x1F72, 0x1F75, 1, 86), (0x1F76, 0x1F77, 1, 100),
      (0x1F78, 0x1F79, 1, 128), (0x1F7A, 0x1F7B, 1, 112), (0x1F7C, 0x1F7D, 1, 126),
      (0x1F80, 0x1F87, 1, 8), (0x1F90, 0x1F97, 1, 8), (0x1FA0, 0x1FA7, 1, 8),
      (0x1FB0, 0x1FB1, 1, 8), (0x1FB3, 0x1FB3, 1, 9), (0x1FBE, 0x1FBE, 1, - 7205),
      (0x1FC3, 0x1FC3, 1, 9), (0x1FD0, 0x1FD1, 1, 8), (0x1FE0, 0x1FE1, 1, 8),
      (0x1FE5, 0x1FE5, 1, 7), (0x1FF3, 0x1FF3, 1, 9), (0x214E, 0x214E, 1, - 28),
      (0x2170, 0x217F, 1, - 16), (0x2184, 0x2184, 1, - 1), (0x24D0, 0x24E9, 1, - 26),
      (0x2C30, 0x2C5F, 1, - 48), (0x2C61, 0x2C61, 1, - 1), (0x2C65, 0x2C65, 1, - 10795),
      (0x2C66, 0x2C66, 1, - 10792), (0x2C68, 0x2C6C, 2, - 1), (0x2C73, 0x2C73, 1, - 1),
      (0x2C76, 0x2C76, 1, - 1), (0x2C81, 0x2CE3, 2, - 1), (0x2CEC, 0x2CEE, 2, - 1),
      (0x2CF3, 0x2CF3, 1, - 1), (0x2D00, 0x2D25, 1, - 7264), (0x2D27, 0x2D27, 1, - 7264),
      (0x2D2D, 0x2D2D, 1, - 7264), (0xA641, 0xA66D, 2, - 1), (0xA681, 0xA69B, 2, - 1),
      (0xA723, 0xA72F, 2, - 1), (0xA733, 0xA76F, 2, - 1), (0xA77A, 0xA77C, 2, - 1),
      (0xA77F, 0xA787, 2, - 1), (0xA78C, 0xA78C, 1, - 1), (0xA791, 0xA793, 2, - 1),
      (0xA794, 0xA794, 1, 48), (0xA797, 0xA7A9, 2, - 1), (0xA7B5, 0xA7C3, 2, - 1),
      (0xA7C8, 0xA7CA, 2, - 1), (0xA7D1, 0xA7D1, 1, - 1), (0xA7D7, 0xA7D9, 2, - 1),
      (0xA7F6, 0xA7F6, 1, - 1), (0xAB53, 0xAB53, 1, - 928), (0xAB70, 0xABBF, 1, - 38864),
      (0xFF41, 0xFF5A, 1, - 32), (0x10428, 0x1044F, 1, - 40), (0x104D8, 0x104FB, 1, - 40),
      (0x10597, 0x105A1, 1, - 39), (0x105A3, 0x105B1, 1, - 39), (0x105B3, 0x105B9, 1, - 39),
      (0x105BB, 0x105BC, 1, - 39), (0x10CC0, 0x10CF2, 1, - 64), (0x118C0, 0x118DF, 1, - 32),
      (0x16E60, 0x16E7F, 1, - 32), (0x1E922, 0x1E943, 1, - 34)]"

definition title_special :: "(nat \<times> nat list) list" where
  "title_special =
     [      (0xDF, [0x53, 0x73]), (0x149, [0x2BC, 0x4E]), (0x1F0, [0x4A, 0x30C]),
      (0x390, [0x399, 0x308, 0x301]), (0x3B0, [0x3A5, 0x308, 0x301]), (0x587, [0x535, 0x582]),
      (0x1E96, [0x48, 0x331]), (0x1E97, [0x54, 0x308]), (0x1E98, [0x57, 0x30A]),
      (0x1E99, [0x59, 0x30A]), (0x1E9A, [0x41, 0x2BE]), (0x1F50, [0x3A5, 0x313]),
      (0x1F52, [0x3A5, 0x313, 0x300]), (0x1F54, [0x3A5, 0x313, 0x301]),
      (0x1F56, [0x3A5, 0x313, 0x342]), (0x1FB2, [0x1FBA, 0x345]), (0x1FB4, [0x386, 0x345]),
      (0x1FB6, [0x391, 0x342]), (0x1FB7, [0x391, 0x342, 0x345]), (0x1FC2, [0x1FCA, 0x345]),
      (0x1FC4, [0x389, 0x345]), (0x1FC6, [0x397, 0x342]), (0x1FC7, [0x397, 0x342, 0x345]),
      (0x1FD2, [0x399, 0x308, 0x300]), (0x1FD3, [0x399, 0x308, 0x301]), (0x1FD6, [0x399, 0x342]),
      (0x1FD7, [0x399, 0x308, 0x342]), (0x1FE2, [0x3A5, 0x308, 0x300]),
      (0x1FE3, [0x3A5, 0x308, 0x301]), (0x1FE4, [0x3A1, 0x313]), (0x1FE6, [0x3A5, 0x342]),
      (0x1FE7, [0x3A5, 0x308, 0x342]), (0x1FF2, [0x1FFA, 0x345]), (0x1FF4, [0x38F, 0x345]),
      (0x1FF6, [0x3A9, 0x342]), (0x1FF7, [0x3A9, 0x342, 0x345]), (0xFB00, [0x46, 0x66]),
      (0xFB01, [0x46, 0x69]), (0xFB02, [0x46, 0x6C]), (0xFB03, [0x46, 0x66, 0x69]),
      (0xFB04, [0x46, 0x66, 0x6C]), (0xFB05, [0x53, 0x74]), (0xFB06, [0x53, 0x74]),
      (0xFB13, [0x544, 0x576]), (0xFB14, [0x544, 0x565]), (0xFB15, [0x544, 0x56B]),
      (0xFB16, [0x54E, 0x576]), (0xFB17, [0x544, 0x56D])]"

definition lower_table :: "(nat \<times> nat \<times> nat \<times> int) list" where
  "lower_table =
     [      (0x41, 0x5A, 1, 32), (0xC0, 0xD6, 1, 32), (0xD8, 0xDE, 1, 32), (0x100, 0x12E, 2, 1),
      (0x132, 0x136, 2, 1), (0x139, 0x147, 2, 1), (0x14A, 0x176, 2, 1), (0x178, 0x178, 1, - 121),
      (0x179, 0x17D, 2, 1), (0x181, 0x181, 1, 210), (0x182, 0x184, 2, 1), (0x186, 0x186, 1, 206),
      (0x187, 0x187, 1, 1), (0x189, 0x18A, 1, 205), (0x18B, 0x18B, 1, 1), (0x18E, 0x18E, 1, 79),
      (0x18F, 0x18F, 1, 202), (0x190, 0x190, 1, 203), (0x191, 0x191, 1, 1),
      (0x193, 0x193, 1, 205), (0x194, 0x194, 1, 207), (0x196, 0x196, 1, 211),
      (0x197, 0x197, 1, 209), (0x198, 0x198, 1, 1), (0x19C, 0x19C, 1, 211),
      (0x19D, 0x19D, 1, 213), (0x19F, 0x19F, 1, 214), (0x1A0, 0x1A4, 2, 1),
      (0x1A6, 0x1A6, 1, 218), (0x1A7, 0x1A7, 1, 1), (0x1A9, 0x1A9, 1, 218), (0x1AC, 0x1AC, 1, 1),
      (0x1AE, 0x1AE, 1, 218), (0x1AF, 0x1AF, 1, 1), (0x1B1, 0x1B2, 1, 217), (0x1B3, 0x1B5, 2, 1),
      (0x1B7, 0x1B7, 1, 219), (0x1B8, 0x1B8, 1, 1), (0x1BC, 0x1BC, 1, 1), (0x1C4, 0x1C4, 1, 2),
      (0x1C5, 0x1C5, 1, 1), (0x1C7, 0x1C7, 1, 2), (0x1C8, 0x1C8, 1, 1), (0x1CA, 0x1CA, 1, 2),
      (0x1CB, 0x1DB, 2, 1), (0x1DE, 0x1EE, 2, 1), (0x1F1, 0x1F1, 1, 2), (0x1F2, 0x1F4, 2, 1),
      (0x1F6, 0x1F6, 1, - 97), (0x1F7, 0x1F7, 1, - 56), (0x1F8, 0x21E, 2, 1),
      (0x220, 0x220, 1, - 130), (0x222, 0x232, 2, 1), (0x23A, 0x23A, 1, 10795),
      (0x23B, 0x23B, 1, 1), (0x23D, 0x23D, 1, - 163), (0x23E, 0x23E, 1, 10792),
      (0x241, 0x241, 1, 1), (0x243, 0x243, 1, - 195), (0x244, 0x244, 1, 69),
      (0x245, 0x245, 1, 71), (0x246, 0x24E, 2, 1), (0x370, 0x372, 2, 1), (0x376, 0x376, 1, 1),
      (0x37F, 0x37F, 1, 116), (0x386, 0x386, 1, 38), (0x388, 0x38A, 1, 37), (0x38C, 0x38C, 1, 64),
      (0x38E, 0x38F, 1, 63), (0x391, 0x3A1, 1, 32), (0x3A4, 0x3AB, 1, 32), (0x3CF, 0x3CF, 1, 8),
      (0x3D8, 0x3EE, 2, 1), (0x3F4, 0x3F4, 1, - 60), (0x3F7, 0x3F7, 1, 1), (0x3F9, 0x3F9, 1, - 7),
      (0x3FA, 0x3FA, 1, 1), (0x3FD, 0x3FF, 1, - 130), (0x400, 0x40F, 1, 80),
      (0x410, 0x42F, 1, 32), (0x460, 0x480, 2, 1), (0x48A, 0x4BE, 2, 1), (0x4C0, 0x4C0, 1, 15),
      (0x4C1, 0x4CD, 2, 1), (0x4D0, 0x52E, 2, 1), (0x531, 0x556, 1, 48),
      (0x10A0, 0x10C5, 1, 7264), (0x10C7, 0x10C7, 1, 7264), (0x10CD, 0x10CD, 1, 7264),
      (0x13A0, 0x13EF, 1, 38864), (0x13F0, 0x13F5, 1, 8), (0x1C90, 0x1CBA, 1, - 3008),
      (0x1CBD, 0x1CBF, 1, - 3008), (0x1E00, 0x1E94, 2, 1), (0x1E9E, 0x1E9E, 1, - 7615),
      (0x1EA0, 0x1EFE, 2, 1), (0x1F08, 0x1F0F, 1, - 8), (0x1F18, 0x1F1D, 1, - 8),
      (0x1F28, 0x1F2F, 1, - 8), (0x1F38, 0x1F3F, 1, - 8), (0x1F48, 0x1F4D, 1, - 8),
      (0x1F59, 0x1F5F, 2, - 8), (0x1F68, 0x1F6F, 1, - 8), (0x1F88, 0x1F8F, 1, - 8),
      (0x1F98, 0x1F9F, 1, - 8), (0x1FA8, 0x1FAF, 1, - 8), (0x1FB8, 0x1FB9, 1, - 8),
      (0x1FBA, 0x1FBB, 1, - 74), (0x1FBC, 0x1FBC, 1, - 9), (0x1FC8, 0x1FCB, 1, - 86),
      (0x1FCC, 0x1FCC, 1, - 9), (0x1FD8, 0x1FD9, 1, - 8), (0x1FDA, 0x1FDB, 1, - 100),
      (0x1FE8, 0x1FE9, 1, - 8), (0x1FEA, 0x1FEB, 1, - 112), (0x1FEC, 0x1FEC, 1, - 7),
      (0x1FF8, 0x1FF9, 1, - 128), (0x1FFA, 0x1FFB, 1, - 126), (0x1FFC, 0x1FFC, 1, - 9),
      (0x2126, 0x2126, 1, - 7517), (0x212A, 0x212A, 1, - 8383), (0x212B, 0x212B, 1, - 8262),
      (0x2132, 0x2132, 1, 28), (0x2160, 0x216F, 1, 16), (0x2183, 0x2183, 1, 1),
      (0x24B6, 0x24CF, 1, 26), (0x2C00, 0x2C2F, 1, 48), (0x2C60, 0x2C60, 1, 1),
      (0x2C62, 0x2C62, 1, - 10743), (0x2C63, 0x2C63, 1, - 3814), (0x2C64, 0x2C64, 1, - 10727),
      (0x2C67, 0x2C6B, 2, 1), (0x2C6D, 0x2C6D, 1, - 10780), (0x2C6E, 0x2C6E, 1, - 10749),
      (0x2C6F, 0x2C6F, 1, - 10783), (0x2C70, 0x2C70, 1, - 10782), (0x2C72, 0x2C72, 1, 1),
      (0x2C75, 0x2C75, 1, 1), (0x2C7E, 0x2C7F, 1, - 10815), (0x2C80, 0x2CE2, 2, 1),
      (0x2CEB, 0x2CED, 2, 1), (0x2CF2, 0x2CF2, 1, 1), (0xA640, 0xA66C, 2, 1),
      (0xA680, 0xA69A, 2, 1), (0xA722, 0xA72E, 2, 1), (0xA732, 0xA76E, 2, 1),
      (0xA779, 0xA77B, 2, 1), (0xA77D, 0xA77D, 1, - 35332), (0xA77E, 0xA786, 2, 1),
      (0xA78B, 0xA78B, 1, 1), (0xA78D, 0xA78D, 1, - 42280), (0xA790, 0xA792, 2, 1),
      (0xA796, 0xA7A8, 2, 1), (0xA7AA, 0xA7AA, 1, - 42308), (0xA7AB, 0xA7AB, 1, - 42319),
      (0xA7AC, 0xA7AC, 1, - 42315), (0xA7AD, 0xA7AD, 1, - 42305), (0xA7AE, 0xA7AE, 1, - 42308),
      (0xA7B0, 0xA7B0, 1, - 42258), (0xA7B1, 0xA7B1, 1, - 42282), (0xA7B2, 0xA7B2, 1, - 42261),
      (0xA7B3, 0xA7B3, 1, 928), (0xA7B4, 0xA7C2, 2, 1), (0xA7C4, 0xA7C4, 1, - 48),
      (0xA7C5, 0xA7C5, 1, - 42307), (0xA7C6, 0xA7C6, 1, - 35384), (0xA7C7, 0xA7C9, 2, 1),
      (0xA7D0, 0xA7D0, 1, 1), (0xA7D6, 0xA7D8, 2, 1), (0xA7F5, 0xA7F5, 1, 1),
      (0xFF21, 0xFF3A, 1, 32), (0x10400, 0x10427, 1, 40), (0x104B0, 0x104D3, 1, 40),
      (0x10570, 0x1057A, 1, 39), (0x1057C, 0x1058A, 1, 39), (0x1058C, 0x10592, 1, 39),
      (0x10594, 0x10595, 1, 39), (0x10C80, 0x10CB2, 1, 64), (0x118A0, 0x118BF, 1, 32),
      (0x16E40, 0x16E5F, 1, 32), (0x1E900, 0x1E921, 1, 34)]"

definition lower_special :: "(nat \<times> nat list) list" where
  "lower_special =
     [      (0x130, [0x69, 0x307])]"

definition in_ranges :: "(nat \<times> nat) list \<Rightarrow> nat \<Rightarrow> bool" where
  "in_ranges rs c \<longleftrightarrow> list_ex (\<lambda>(a, b). a \<le> c \<and> c \<le> b) rs"

definition map_case :: "(nat \<times> nat \<times> nat \<times> int) list \<Rightarrow> nat \<Rightarrow> nat" where
  "map_case tbl c =
     (case find (\<lambda>(a, b, k, d). a \<le> c \<and> c \<le> b \<and> (c - a) mod k = 0) tbl of
        None \<Rightarrow> c
      | Some (a, b, k, d) \<Rightarrow> nat (int c + d))"

definition is_upper :: "nat \<Rightarrow> bool" where
  "is_upper c \<longleftrightarrow> 0x41 \<le> c \<and> c \<le> 0x5A"

definition is_lower :: "nat \<Rightarrow> bool" where
  "is_lower c \<longleftrightarrow> 0x61 \<le> c \<and> c \<le> 0x7A"

text \<open>On ASCII the tables say: the letters are cased, and the two cases are 32 apart.\<close>

definition is_cased :: "nat \<Rightarrow> bool" where
  "is_cased c \<longleftrightarrow> (if c < 128 then is_upper c \<or> is_lower c else in_ranges cased_ranges c)"

definition is_case_ignorable :: "nat \<Rightarrow> bool" where
  "is_case_ignorable c \<longleftrightarrow> in_ranges case_ignorable_ranges c"

definition to_lower_full :: "nat \<Rightarrow> ustr" where
  "to_lower_full c =
     (if c < 128 then [if is_upper c then c + 32 else c]
      else case map_of lower_special c of
             Some s \<Rightarrow> s
           | None \<Rightarrow> [map_case lower_table c])"

definition to_title_full :: "nat \<Rightarrow> ustr" where
  "to_title_full c =
     (if c < 128 then [if is_lower c then c - 32 else c]
      else case map_of title_special c of
             Some s \<Rightarrow> s
           | None \<Rightarrow> [map_case title_table c])"

text \<open>
  Lower-casing inside a string: a capital sigma becomes a final sigma when a cased
  character stands before it and none behind it, case-ignorable characters skipped.
  \<open>front\<close> holds the characters in front, nearest first.
\<close>

definition final_sigma :: "ustr \<Rightarrow> ustr \<Rightarrow> bool" where
  "final_sigma front behind \<longleftrightarrow>
     (case dropWhile is_case_ignorable front of [] \<Rightarrow> False | p # _ \<Rightarrow> is_cased p) \<and>
     (case dropWhile is_case_ignorable behind of [] \<Rightarrow> True | n # _ \<Rightarrow> \<not> is_cased n)"

definition lower_in_context :: "ustr \<Rightarrow> nat \<Rightarrow> ustr \<Rightarrow> ustr" where
  "lower_in_context front c behind =
     (if c = 0x3A3 then [if final_sigma front behind then 0x3C2 else 0x3C3]
      else to_lower_full c)"

fun title_from :: "bool \<Rightarrow> ustr \<Rightarrow> ustr \<Rightarrow> ustr" where
  "title_from previous_is_cased front [] = []"
| "title_from previous_is_cased front (c # cs) =
     (if previous_is_cased then lower_in_context front c cs else to_title_full c)
       @ title_from (is_cased c) (c # front) cs"

definition title :: "ustr \<Rightarrow> ustr" where
  "title s = title_from False [] s"

section \<open>Text normalizers\<close>

text \<open>\<open>re.sub(r"\s+", " ", s)\<close>: every maximal run of whitespace becomes one space.\<close>

function collapse_spaces :: "ustr \<Rightarrow> ustr" where
  "collapse_spaces [] = []"
| "collapse_spaces (c # cs) =
     (if is_space c then 0x20 # collapse_spaces (dropWhile is_space cs)
      else c # collapse_spaces cs)"
  by pat_completeness auto
termination
  by (relation "measure length") (auto simp: length_dropWhile_le less_Suc_eq_le)

definition normalize_spaces :: "ustr \<Rightarrow> ustr" where
  "normalize_spaces s = strip (collapse_spaces s)"

definition normalize_station_en :: "ustr \<Rightarrow> ustr" where
  "normalize_station_en name_en =
     (let base = title (normalize_spaces name_en);
          base = replace base (U '' Station'') []
      in replace base (U '' '') (U ''-''))"

text \<open>The labels start with the yen sign U+00A5.\<close>

definition yen :: "string \<Rightarrow> ustr" where
  "yen s = 0xA5 # U s"

definition price_range_label :: "int \<Rightarrow> ustr" where
  "price_range_label rent_int =
     (if rent_int \<le> 0 then yen ''100~199K''
      else let k = rent_int div 1000 in
        if k < 200 then yen ''100~199K''
        else if 200 \<le> k \<and> k \<le> 299 then yen ''200~299K''
        else if 300 \<le> k \<and> k \<le> 399 then yen ''300~399K''
        else if 400 \<le> k \<and> k \<le> 499 then yen ''400~499K''
        else if 500 \<le> k \<and> k \<le> 599 then yen ''500~599K''
        else if 600 \<le> k \<and> k \<le> 699 then yen ''600~699K''
        else if 700 \<le> k \<and> k \<le> 799 then yen ''700~799K''
        else if 800 \<le> k \<and> k \<le> 899 then yen ''800~899K''
        else if 900 \<le> k \<and> k \<le> 999 then yen ''900~999K''
        else yen ''1M~'')"

section \<open>Exceptions, the translation service and the record store\<close>

text \<open>
  The exceptions that can reach the program; all of them derive from Python's
  \<open>Exception\<close>. \<open>ServiceError\<close> stands for whatever a remote service raises.
\<close>

datatype exn = ValueError | OverflowError | AttributeError | IndexError | HTTPError | ServiceError nat

subsection \<open>Numbers in text\<close>

text \<open>
  The regular-expression class \<open>\d\<close>, \<open>int()\<close> and \<open>float()\<close> accept every Unicode decimal
  digit (category Nd), for instance the full-width digits of Japanese pages. The digits
  come in runs of ten, listed here by their zero (Unicode 14.0, as shipped with CPython 3.11).
\<close>

definition decimal_zeros :: "nat list" where
  "decimal_zeros =
     [48, 1632, 1776, 1984, 2406, 2534, 2662, 2790, 2918, 3046, 3174, 3302, 3430, 3558, 3664,
      3792, 3872, 4160, 4240, 6112, 6160, 6470, 6608, 6784, 6800, 6992, 7088, 7232, 7248,
      42528, 43216, 43264, 43472, 43504, 43600, 44016, 65296, 66720, 68912, 69734, 69872,
      69942, 70096, 70384, 70736, 70864, 71248, 71360, 71472, 71904, 72016, 72784, 73040,
      73120, 92768, 92864, 93008, 120782, 120792, 120802, 120812, 120822, 123200, 123632,
      125264, 130032]"

definition decimal_value :: "nat \<Rightarrow> nat option" where
  "decimal_value c =
     (case filter (\<lambda>z. z \<le> c \<and> c < z + 10) decimal_zeros of
        [] \<Rightarrow> None
      | z # _ \<Rightarrow> Some (c - z))"

definition is_digit :: "nat \<Rightarrow> bool" where
  "is_digit c \<longleftrightarrow> decimal_value c \<noteq> None"

text \<open>The number a run of decimal digits denotes.\<close>

definition decimal_number :: "ustr \<Rightarrow> nat" where
  "decimal_number s = foldl (\<lambda>a c. 10 * a + (case decimal_value c of Some d \<Rightarrow> d | None \<Rightarrow> 0)) 0 s"

text \<open>
  \<open>int(s)\<close> for a non-empty run of decimal digits (the only arguments it gets here).
  CPython refuses to convert more than \<open>sys.int_max_str_digits\<close> digits (4300 unless
  configured otherwise), leading zeros counted, and raises \<open>ValueError\<close>.
\<close>

definition int_max_str_digits :: nat where
  "int_max_str_digits = 4300"

definition int_of_digits :: "ustr \<Rightarrow> exn + nat" where
  "int_of_digits s =
     (if int_max_str_digits < length s then Inl ValueError else Inr (decimal_number s))"

text \<open>
  \<open>re.search\<close> for a pattern \<open>[...]+\<close>: the first maximal run of characters of the class,
  if there is one.
\<close>

definition search_run :: "(nat \<Rightarrow> bool) \<Rightarrow> ustr \<Rightarrow> ustr option" where
  "search_run cls t =
     (case takeWhile cls (dropWhile (\<lambda>c. \<not> cls c) t) of [] \<Rightarrow> None | c # cs \<Rightarrow> Some (c # cs))"

text \<open>
  Non-negative IEEE 754 double-precision numbers: \<open>Finite m e\<close> is \<open>m * 2 ^ e\<close>. Arithmetic
  rounds to the nearest double, ties to even; a result at or beyond \<open>2 ^ 1024\<close> is infinite.
\<close>

datatype double = Finite nat int | Infinity

fun bit_length :: "nat \<Rightarrow> nat" where
  "bit_length n = (if n = 0 then 0 else Suc (bit_length (n div 2)))"

declare bit_length.simps [simp del]

text \<open>The integer part of the binary logarithm of \<open>p / q\<close>, for positive \<open>p\<close> and \<open>q\<close>.\<close>

definition floor_log2 :: "nat \<Rightarrow> nat \<Rightarrow> int" where
  "floor_log2 p q =
     (let d = int (bit_length p) - int (bit_length q)
      in if q * 2 ^ nat d \<le> p * 2 ^ nat (- d) then d else d - 1)"

definition round_half_even :: "nat \<Rightarrow> nat \<Rightarrow> nat" where
  "round_half_even a b =
     (let qd = a div b; r = a mod b
      in if 2 * r < b then qd
         else if b < 2 * r then qd + 1
         else if even qd then qd else qd + 1)"

text \<open>The double nearest to \<open>p / q\<close> (for \<open>q > 0\<close>), subnormal numbers included.\<close>

definition round_to_double :: "nat \<Rightarrow> nat \<Rightarrow> double" where
  "round_to_double p q =
     (if p = 0 then Finite 0 0
      else let e = max (floor_log2 p q - 52) (- 1074);
               m = round_half_even (p * 2 ^ nat (- e)) (q * 2 ^ nat e)
           in if 971 < e \<or> (e = 971 \<and> 2 ^ 53 \<le> m) then Infinity else Finite m e)"

text \<open>
  \<open>float(s)\<close> for a string of digits and dots (the only arguments it gets here): digits
  with at most one dot and at least one digit, else \<open>ValueError\<close>. The conversion is
  correctly rounded.
\<close>

definition float_of_str :: "ustr \<Rightarrow> exn + double" where
  "float_of_str s =
     (let whole = takeWhile is_digit s; after = dropWhile is_digit s
      in case after of
           [] \<Rightarrow> if whole = [] then Inl ValueError
                 else Inr (round_to_double (decimal_number whole) 1)
         | c # frac \<Rightarrow>
             if c = 0x2E \<and> list_all is_digit frac \<and> (whole \<noteq> [] \<or> frac \<noteq> [])
             then Inr (round_to_double (decimal_number (whole @ frac)) (10 ^ length frac))
             else Inl ValueError)"

text \<open>\<open>x * k\<close> for a double \<open>x\<close> and a whole number \<open>k\<close> that is a double itself.\<close>

definition float_mul :: "double \<Rightarrow> nat \<Rightarrow> double" where
  "float_mul x k =
     (case x of
        Infinity \<Rightarrow> Infinity
      | Finite m e \<Rightarrow> round_to_double (m * k * 2 ^ nat e) (2 ^ nat (- e)))"

text \<open>\<open>int(x)\<close> truncates; \<open>round(x)\<close> rounds half to even; both raise on infinity.\<close>

definition int_of_float :: "double \<Rightarrow> exn + nat" where
  "int_of_float x =
     (case x of
        Infinity \<Rightarrow> Inl OverflowError
      | Finite m e \<Rightarrow> Inr (m * 2 ^ nat e div 2 ^ nat (- e)))"

definition round_float :: "double \<Rightarrow> exn + nat" where
  "round_float x =
     (case x of
        Infinity \<Rightarrow> Inl OverflowError
      | Finite m e \<Rightarrow> Inr (round_half_even (m * 2 ^ nat e) (2 ^ nat (- e))))"

text \<open>\<open>str(n)\<close> and \<open>f"{n:,}"\<close> for a non-negative integer.\<close>

function digits :: "nat \<Rightarrow> ustr" where
  "digits n = (if n < 10 then [0x30 + n] else digits (n div 10) @ [0x30 + n mod 10])"
  by pat_completeness auto
termination
  by (relation "measure id") auto

declare digits.simps [simp del]

fun commas_rev :: "ustr \<Rightarrow> ustr" where
  "commas_rev (a # b # c # d # ds) = a # b # c # 0x2C # commas_rev (d # ds)"
| "commas_rev ds = ds"

definition format_commas :: "nat \<Rightarrow> ustr" where
  "format_commas n = rev (commas_rev (rev (digits n)))"

subsection \<open>Services\<close>

text \<open>
  The translation service is a machine with a state of its own: a call takes the text and
  the two language codes and either returns the translated text or raises.
\<close>

type_synonym 's translator = "'s \<Rightarrow> ustr \<Rightarrow> ustr \<Rightarrow> ustr \<Rightarrow> (exn + ustr) \<times> 's"

text \<open>
  Modelled from the spec: the external tabular store, which is not part of the repository.
  Its two operations are "find records matching an equality filter on Name" and "create one
  record in a table", both scoped to a table identifier. A row is (table identifier, record
  identifier, Name); a new record gets an identifier made from a running number. Requests to
  the store are taken to succeed.
\<close>

type_synonym row = "ustr \<times> ustr \<times> ustr"

record store =
  rows :: "row list"
  created :: nat

definition table_all :: "store \<Rightarrow> ustr \<Rightarrow> ustr \<Rightarrow> ustr list" where
  "table_all st table_id name =
     map (\<lambda>(t, rid, n). rid) (filter (\<lambda>(t, rid, n). t = table_id \<and> n = name) (rows st))"

definition table_create :: "store \<Rightarrow> ustr \<Rightarrow> ustr \<Rightarrow> ustr \<times> store" where
  "table_create st table_id name =
     (let rid = U ''rec'' @ digits (created st)
      in (rid, st\<lparr>rows := rows st @ [(table_id, rid, name)], created := Suc (created st)\<rparr>))"

text \<open>The world outside the program: the state of the translation service and the store.\<close>

record 's world =
  service :: 's
  db :: store

text \<open>
  A step of the program runs in a world and either returns a value or raises, leaving a
  world behind in both cases.
\<close>

type_synonym ('a, 's) run = "'s world \<Rightarrow> (exn + 'a) \<times> 's world"

definition ret :: "'a \<Rightarrow> ('a, 's) run" where
  "ret x w = (Inr x, w)"

definition bind :: "('a, 's) run \<Rightarrow> ('a \<Rightarrow> ('b, 's) run) \<Rightarrow> ('b, 's) run" where
  "bind m f w = (case m w of (Inl e, w') \<Rightarrow> (Inl e, w') | (Inr x, w') \<Rightarrow> f x w')"

text \<open>A pure computation that may raise.\<close>

definition lift :: "exn + 'a \<Rightarrow> ('a, 's) run" where
  "lift r w = (r, w)"

text \<open>Truth value of an \<open>Optional[str]\<close>: \<open>None\<close> and the empty string are false.\<close>

fun truthy :: "ustr option \<Rightarrow> bool" where
  "truthy None = False"
| "truthy (Some s) = (s \<noteq> [])"

section \<open>Helpers\<close>

definition safe_translate :: "'s translator \<Rightarrow> ustr \<Rightarrow> ustr \<Rightarrow> ustr \<Rightarrow> (ustr, 's) run" where
  "safe_translate translate text src dest w =
     (if text = [] then (Inr text, w)
      else case translate (service w) text src dest of
             (Inr translated, s') \<Rightarrow> (Inr translated, w\<lparr>service := s'\<rparr>)
           | (Inl e, s') \<Rightarrow> (Inr text, w\<lparr>service := s'\<rparr>))"

text \<open>
  Line 91 builds the formula \<open>{Name}='...'\<close> with single quotes escaped; the store answers
  it with the records of the table whose Name equals \<open>name\<close>, in stored order.
\<close>

definition airtable_find_by_name :: "ustr \<Rightarrow> ustr \<Rightarrow> (ustr option, 's) run" where
  "airtable_find_by_name table_id name w =
     (if name = [] then (Inr None, w)
      else case table_all (db w) table_id name of
             [] \<Rightarrow> (Inr None, w)
           | rid # _ \<Rightarrow> (Inr (Some rid), w))"

definition airtable_create :: "ustr \<Rightarrow> ustr \<Rightarrow> (ustr option, 's) run" where
  "airtable_create table_id name w =
     (let (rid, st) = table_create (db w) table_id name in (Inr (Some rid), w\<lparr>db := st\<rparr>))"

definition airtable_get_or_create_by_name :: "ustr \<Rightarrow> ustr \<Rightarrow> (ustr option, 's) run" where
  "airtable_get_or_create_by_name table_id name =
     bind (airtable_find_by_name table_id name) (\<lambda>rec_id.
       if truthy rec_id then ret rec_id else airtable_create table_id name)"

definition MAN :: nat where "MAN = 0x4E07"

text \<open>The character class \<open>[\d.]\<close>.\<close>

definition is_digit_or_dot :: "nat \<Rightarrow> bool" where
  "is_digit_or_dot c \<longleftrightarrow> is_digit c \<or> c = 0x2E"

definition parse_price :: "ustr \<Rightarrow> exn + ustr" where
  "parse_price text =
     (if text = [] then Inr (U ''0'')
      else let t = replace text (U '','') [] in
        if contains t [MAN] then
          (case search_run is_digit_or_dot t of
             None \<Rightarrow> Inr (U ''0'')
           | Some g \<Rightarrow>
               (case float_of_str g of
                  Inl e \<Rightarrow> Inl e
                | Inr x \<Rightarrow>
                    (case int_of_float (float_mul x 10000) of
                       Inl e \<Rightarrow> Inl e
                     | Inr v \<Rightarrow> Inr (format_commas v))))
        else
          (case search_run is_digit t of
             Some g \<Rightarrow>
               (case int_of_digits g of
                  Inl e \<Rightarrow> Inl e
                | Inr v \<Rightarrow> Inr (format_commas v))
           | None \<Rightarrow> Inr (U ''0'')))"

section \<open>Address\<close>

definition ja :: ustr where "ja = U ''ja''"
definition en :: ustr where "en = U ''en''"

text \<open>
  \<open>re.match(r"(?P<ward>.+?)\<open>KU\<close>(?P<rest>.*)", t)\<close>: the ward is the shortest non-empty
  run of characters other than a line feed that is followed by U+533A; the rest runs to the
  next line feed or the end.
\<close>

definition KU :: nat where "KU = 0x533A"

definition TOKYO_TO :: ustr where "TOKYO_TO = [0x6771, 0x4EAC, 0x90FD]"

fun lazy_until :: "nat \<Rightarrow> ustr \<Rightarrow> (ustr \<times> ustr) option" where
  "lazy_until d [] = None"
| "lazy_until d (c # cs) =
     (if c = d then Some ([], cs)
      else if c = 0x0A then None
      else map_option (\<lambda>(w, r). (c # w, r)) (lazy_until d cs))"

definition match_ward :: "ustr \<Rightarrow> (ustr \<times> ustr) option" where
  "match_ward t =
     (case t of
        [] \<Rightarrow> None
      | c # cs \<Rightarrow>
          if c = 0x0A then None
          else map_option (\<lambda>(w, r). (c # w, takeWhile (\<lambda>x. x \<noteq> 0x0A) r)) (lazy_until KU cs))"

definition split_address_to_area_and_street ::
    "'s translator \<Rightarrow> ustr \<Rightarrow> (ustr option \<times> ustr option, 's) run" where
  "split_address_to_area_and_street translate address_jp =
     (if address_jp = [] then ret (None, None)
      else let t = replace1 address_jp TOKYO_TO [] in
        case match_ward t of
          None \<Rightarrow> ret (None, Some address_jp)
        | Some (ward_raw, rest_raw) \<Rightarrow>
            let ward = strip ward_raw; rest = strip rest_raw in
            bind (safe_translate translate rest ja en) (\<lambda>street_en.
              ret (Some ward, Some (normalize_spaces street_en))))"

section \<open>The parsed page\<close>

text \<open>
  The page is parsed by BeautifulSoup, which is not part of the repository. An element is
  represented by the text nodes below it, in document order, and the page by the answers
  it gives to the queries the scraper makes.
\<close>

type_synonym element = "ustr list"

text \<open>\<open>tag.get_text()\<close> and \<open>tag.get_text(strip=True)\<close>.\<close>

definition get_text :: "element \<Rightarrow> ustr" where
  "get_text tag = concat tag"

definition get_text_strip :: "element \<Rightarrow> ustr" where
  "get_text_strip tag = concat (filter (\<lambda>s. s \<noteq> []) (map strip tag))"

text \<open>
  A \<open>td\<close> cell: its text nodes and the result of
  \<open>td.select("div.property_view_table-read")\<close>.
\<close>

record td_cell =
  td_text :: element
  td_reads :: "element list"

text \<open>A \<open>th\<close> cell: its \<open>.string\<close> and the result of \<open>find_next("td")\<close>.\<close>

record th_cell =
  th_string :: "ustr option"
  th_next_td :: "td_cell option"

text \<open>A table row: the results of \<open>tr.find("th")\<close> and \<open>tr.find("td")\<close>.\<close>

record table_row =
  row_th :: "element option"
  row_td :: "element option"

text \<open>An image: its attributes \<open>data-src\<close> and \<open>src\<close>.\<close>

record img =
  img_data_src :: "ustr option"
  img_src :: "ustr option"

record soup =
  h1_title :: "element option"
  rent_emphasis :: "element option"
  note_info_spans :: "element list"
  note_list_spans :: "element list"
  th_cells :: "th_cell list"
  view_table_rows :: "table_row list"
  gallery_imgs :: "img list"

text \<open>
  The fields of \<open>soup\<close> are, in this order, the results of
  \<open>select_one("h1.section_h1-header-title")\<close>,
  \<open>select_one("span.property_view_note-emphasis")\<close>,
  \<open>select("div.property_view_note-info > div.property_view_note-list > span")\<close>,
  \<open>select("div.property_view_note-list span")\<close>, all \<open>th\<close> elements in document order,
  \<open>select("table.property_view_table tr")\<close> and \<open>select("ul#js-view_gallery-list img")\<close>.
\<close>

text \<open>\<open>soup.find("th", string=lambda t: t and label in t)\<close>.\<close>

definition find_th :: "soup \<Rightarrow> ustr \<Rightarrow> th_cell option" where
  "find_th sp label =
     find (\<lambda>c. case th_string c of None \<Rightarrow> False | Some t \<Rightarrow> t \<noteq> [] \<and> contains t label)
       (th_cells sp)"

section \<open>Configuration and constants\<close>

record config =
  stations_table_id :: ustr
  layouts_table_id :: ustr
  prop_types_table_id :: ustr
  areas_table_id :: ustr
  price_range_table_id :: ustr
  property_kind_table_id :: ustr

definition STATION_ALIASES :: "(ustr \<times> ustr) list" where
  "STATION_ALIASES =
     [([0x99D2, 0x6CA2, 0x5927, 0x5B66], U ''Komazawa-Daigaku''),
      ([0x5357, 0x65B0, 0x5BBF], U ''Minami-Shinjuku''),
      ([0x4EE3, 0x3005, 0x6728], U ''Yoyogi'')]"

definition AREA_ALIASES :: "(ustr \<times> ustr) list" where
  "AREA_ALIASES =
     [([0x4E16, 0x7530, 0x8C37], U ''Setagaya''),
      ([0x6E0B, 0x8C37], U ''Shibuya''),
      ([0x6E2F], U ''Minato''),
      ([0x65B0, 0x5BBF], U ''Shinjuku''),
      ([0x76EE, 0x9ED2], U ''Meguro''),
      ([0x54C1, 0x5DDD], U ''Shinagawa''),
      ([0x4E2D, 0x91CE], U ''Nakano''),
      ([0x6749, 0x4E26], U ''Suginami''),
      ([0x5927, 0x7530], U ''Ota''),
      ([0x4E2D, 0x592E], U ''Chuo''),
      ([0x5343, 0x4EE3, 0x7530], U ''Chiyoda''),
      ([0x6587, 0x4EAC], U ''Bunkyo''),
      ([0x53F0, 0x6771], U ''Taito''),
      ([0x8C4A, 0x5CF6], U ''Toshima''),
      ([0x5317], U ''Kita''),
      ([0x8352, 0x5DDD], U ''Arakawa''),
      ([0x677F, 0x6A4B], U ''Itabashi''),
      ([0x7DF4, 0x99AC], U ''Nerima''),
      ([0x8DB3, 0x7ACB], U ''Adachi''),
      ([0x845B, 0x98FE], U ''Katsushika''),
      ([0x6C5F, 0x6238, 0x5DDD], U ''Edogawa'')]"

text \<open>The Japanese words the scraper looks for, by code point.\<close>

definition HO :: nat where "HO = 0x6B69"
definition TO :: nat where "TO = 0x5F92"
definition FUN :: nat where "FUN = 0x5206"
definition EKI :: nat where "EKI = 0x99C5"
definition ONE_ROOM :: ustr where "ONE_ROOM = [0x30EF, 0x30F3, 0x30EB, 0x30FC, 0x30E0]"
definition MANSION :: ustr where "MANSION = [0x30DE, 0x30F3, 0x30B7, 0x30E7, 0x30F3]"
definition IKKODATE :: ustr where "IKKODATE = [0x4E00, 0x6238, 0x5EFA, 0x3066]"
definition KANRIHI :: ustr where "KANRIHI = [0x7BA1, 0x7406, 0x8CBB]"
definition KYOEKIHI :: ustr where "KYOEKIHI = [0x5171, 0x76CA, 0x8CBB]"
definition SHIKIKIN :: ustr where "SHIKIKIN = [0x6577, 0x91D1]"
definition REIKIN :: ustr where "REIKIN = [0x793C, 0x91D1]"
definition MADORI :: ustr where "MADORI = [0x9593, 0x53D6, 0x308A]"
definition SENYU_MENSEKI :: ustr where "SENYU_MENSEKI = [0x5C02, 0x6709, 0x9762, 0x7A4D]"
definition TATEMONO_SHUBETSU :: ustr where "TATEMONO_SHUBETSU = [0x5EFA, 0x7269, 0x7A2E, 0x5225]"
definition SHOZAICHI :: ustr where "SHOZAICHI = [0x6240, 0x5728, 0x5730]"
definition EKI_TOHO :: ustr where "EKI_TOHO = [0x99C5, 0x5F92, 0x6B69]"

section \<open>More helpers\<close>

text \<open>Sequencing of pure computations that may raise.\<close>

definition bind_e :: "exn + 'a \<Rightarrow> ('a \<Rightarrow> exn + 'b) \<Rightarrow> exn + 'b" where
  "bind_e r f = (case r of Inl e \<Rightarrow> Inl e | Inr x \<Rightarrow> f x)"

text \<open>
  \<open>(?:\<open>HO\<close>|\<open>TO\<close>\<open>HO\<close>)\s*(\d+)\s*\<open>FUN\<close>\<close> matched at the start of a string: the digits of
  the group and the text behind the match.
\<close>

definition match_walk_at :: "ustr \<Rightarrow> (ustr \<times> ustr) option" where
  "match_walk_at s =
     (case (if startswith s [HO] then Some (drop 1 s)
            else if startswith s [TO, HO] then Some (drop 2 s) else None) of
        None \<Rightarrow> None
      | Some r \<Rightarrow>
          (let r1 = dropWhile is_space r;
               ds = takeWhile is_digit r1;
               r2 = dropWhile is_space (dropWhile is_digit r1)
           in if ds \<noteq> [] \<and> startswith r2 [FUN] then Some (ds, drop 1 r2) else None))"

text \<open>\<open>re.search\<close> of that pattern: the leftmost match.\<close>

fun search_walk :: "ustr \<Rightarrow> (ustr \<times> ustr) option" where
  "search_walk [] = None"
| "search_walk (c # cs) =
     (case match_walk_at (c # cs) of Some m \<Rightarrow> Some m | None \<Rightarrow> search_walk cs)"

definition parse_minutes :: "ustr \<Rightarrow> exn + nat option" where
  "parse_minutes fragment =
     (case search_walk fragment of
        Some (ds, r) \<Rightarrow>
          (case int_of_digits ds of Inl e \<Rightarrow> Inl e | Inr n \<Rightarrow> Inr (Some n))
      | None \<Rightarrow> Inr None)"

definition map_property_category_jp_to_en :: "ustr \<Rightarrow> ustr option" where
  "map_property_category_jp_to_en jp =
     map_of [(MANSION, U ''Apartment''), (IKKODATE, U ''Detached house'')] (strip jp)"

definition map_property_kind_from_url :: "ustr \<Rightarrow> ustr option" where
  "map_property_kind_from_url url =
     (if contains url (U ''chintai'') then Some (U ''For Rent'')
      else if contains url (U ''/ms/chuko/'') \<or> contains url (U ''/ms/shinchiku/'')
      then Some (U ''For Buy'')
      else None)"

section \<open>Airtable lookups\<close>

definition get_layout_record_id :: "config \<Rightarrow> ustr \<Rightarrow> (ustr option, 's) run" where
  "get_layout_record_id cfg layout_name_jp =
     (if layout_name_jp = [] then ret None
      else let name = (if strip layout_name_jp = ONE_ROOM then U ''Studio''
                       else strip layout_name_jp)
           in airtable_find_by_name (layouts_table_id cfg) name)"

definition get_or_create_station_id ::
    "'s translator \<Rightarrow> config \<Rightarrow> ustr \<Rightarrow> (ustr option, 's) run" where
  "get_or_create_station_id translate cfg station_ja_or_en =
     (if station_ja_or_en = [] then ret None
      else
        bind (case map_of STATION_ALIASES station_ja_or_en of
                Some alias \<Rightarrow> ret alias
              | None \<Rightarrow>
                  bind (safe_translate translate station_ja_or_en ja en) (\<lambda>en_text.
                    ret (normalize_station_en en_text))) (\<lambda>norm.
        bind (airtable_find_by_name (stations_table_id cfg) norm) (\<lambda>rec.
          if truthy rec then ret rec
          else
            let alt = replace norm (U ''-'') (U '' '') in
            bind (airtable_find_by_name (stations_table_id cfg) alt) (\<lambda>rec_alt.
              if truthy rec_alt then ret rec_alt
              else airtable_get_or_create_by_name (stations_table_id cfg) norm))))"

definition get_or_create_area_id ::
    "'s translator \<Rightarrow> config \<Rightarrow> ustr \<Rightarrow> (ustr option, 's) run" where
  "get_or_create_area_id translate cfg ward_jp =
     (if ward_jp = [] then ret None
      else
        bind (case map_of AREA_ALIASES ward_jp of
                Some alias \<Rightarrow> ret alias
              | None \<Rightarrow>
                  bind (safe_translate translate ward_jp ja en) (\<lambda>en_text. ret (title en_text)))
          (\<lambda>en_name. airtable_get_or_create_by_name (areas_table_id cfg) en_name))"

definition get_property_category_id :: "config \<Rightarrow> ustr \<Rightarrow> (ustr option, 's) run" where
  "get_property_category_id cfg type_en =
     (if type_en = [] then ret None
      else airtable_find_by_name (prop_types_table_id cfg) type_en)"

definition get_property_kind_id :: "config \<Rightarrow> ustr \<Rightarrow> (ustr option, 's) run" where
  "get_property_kind_id cfg kind_en =
     (if kind_en = [] then ret None
      else airtable_find_by_name (property_kind_table_id cfg) kind_en)"

definition get_price_range_id :: "config \<Rightarrow> ustr \<Rightarrow> (ustr option, 's) run" where
  "get_price_range_id cfg label =
     (if label = [] then ret None
      else airtable_find_by_name (price_range_table_id cfg) label)"

section \<open>Extractors\<close>

definition extract_name :: "'s translator \<Rightarrow> soup \<Rightarrow> (ustr, 's) run" where
  "extract_name translate sp =
     (let ja_text = (case h1_title sp of Some tag \<Rightarrow> get_text_strip tag | None \<Rightarrow> [])
      in if ja_text \<noteq> [] then safe_translate translate ja_text ja en else ret (U ''N/A''))"

text \<open>The loop over the fee spans stops at the first span with one of the two labels.\<close>

fun management_fee :: "element list \<Rightarrow> exn + ustr" where
  "management_fee [] = Inr (U ''0'')"
| "management_fee (sp # sps) =
     (if contains (get_text sp) KANRIHI \<or> contains (get_text sp) KYOEKIHI
      then parse_price (get_text_strip sp)
      else management_fee sps)"

definition extract_rent_and_fee :: "soup \<Rightarrow> exn + (ustr \<times> ustr)" where
  "extract_rent_and_fee sp =
     bind_e (case rent_emphasis sp of
               Some rent_tag \<Rightarrow> parse_price (get_text_strip rent_tag)
             | None \<Rightarrow> Inr (U ''0'')) (\<lambda>rent.
     bind_e (management_fee (note_info_spans sp)) (\<lambda>mgmt.
       Inr (rent, mgmt)))"

text \<open>\<open>str(round(float(num)))\<close> for the digits and dots of the floor-size cell.\<close>

definition floor_size :: "ustr \<Rightarrow> exn + ustr" where
  "floor_size raw =
     (let num = filter is_digit_or_dot raw
      in if num \<noteq> []
         then bind_e (float_of_str num) (\<lambda>x. bind_e (round_float x) (\<lambda>n. Inr (digits n)))
         else Inr (U ''N/A''))"

definition extract_layout_and_size :: "soup \<Rightarrow> exn + (ustr \<times> ustr)" where
  "extract_layout_and_size sp =
     (let layout = (case find_th sp MADORI of
                      Some row_l \<Rightarrow>
                        (case th_next_td row_l of
                           Some td \<Rightarrow> get_text_strip (td_text td)
                         | None \<Rightarrow> U ''N/A'')
                    | None \<Rightarrow> U ''N/A'')
      in bind_e (case find_th sp SENYU_MENSEKI of
                   Some row_s \<Rightarrow>
                     (case th_next_td row_s of
                        Some td \<Rightarrow> floor_size (get_text_strip (td_text td))
                      | None \<Rightarrow> Inr (U ''N/A''))
                 | None \<Rightarrow> Inr (U ''N/A'')) (\<lambda>size.
           Inr (layout, size)))"

definition extract_property_category_jp :: "soup \<Rightarrow> ustr option" where
  "extract_property_category_jp sp =
     (case find_th sp TATEMONO_SHUBETSU of
        None \<Rightarrow> None
      | Some row \<Rightarrow>
          (case th_next_td row of
             Some td \<Rightarrow> Some (get_text_strip (td_text td))
           | None \<Rightarrow> None))"

text \<open>
  The first row whose header holds the location label decides; a row without a \<open>td\<close>
  makes \<open>td.get_text\<close> raise \<open>AttributeError\<close>.
\<close>

fun address_of_rows :: "table_row list \<Rightarrow> exn + ustr option" where
  "address_of_rows [] = Inr None"
| "address_of_rows (tr # trs) =
     (case row_th tr of
        Some th \<Rightarrow>
          if contains (get_text_strip th) SHOZAICHI
          then (case row_td tr of
                  Some td \<Rightarrow> Inr (Some (get_text_strip td))
                | None \<Rightarrow> Inl AttributeError)
          else address_of_rows trs
      | None \<Rightarrow> address_of_rows trs)"

definition extract_address_jp :: "soup \<Rightarrow> exn + ustr option" where
  "extract_address_jp sp = address_of_rows (view_table_rows sp)"

text \<open>
  \<open>re.sub\<close> of the walking phrase and everything behind it on the line: every match is
  removed, the search going on behind the end of the line.
\<close>

function remove_walk :: "ustr \<Rightarrow> ustr" where
  "remove_walk [] = []"
| "remove_walk (c # cs) =
     (case match_walk_at (c # cs) of
        Some (ds, r) \<Rightarrow> remove_walk (dropWhile (\<lambda>x. x \<noteq> 0x0A) r)
      | None \<Rightarrow> c # remove_walk cs)"
  by pat_completeness auto
termination
proof (relation "measure length")
  show "wf (measure length)" by simp
next
  fix c :: nat and cs :: ustr
  show "(cs, c # cs) \<in> measure length" by simp
next
  fix c :: nat and cs x2 ds r :: ustr and p
  assume m: "match_walk_at (c # cs) = Some p" and p: "(ds, r) = p"
  define r0 where "r0 = (if startswith (c # cs) [HO] then drop 1 (c # cs) else drop 2 (c # cs))"
  have r0: "length r0 \<le> length (c # cs)" by (auto simp: r0_def)
  from m p have r: "r = drop 1 (dropWhile is_space (dropWhile is_digit (dropWhile is_space r0)))"
    and f: "startswith (dropWhile is_space (dropWhile is_digit (dropWhile is_space r0))) [FUN]"
    unfolding match_walk_at_def Let_def r0_def
    by (auto split: if_splits option.splits)
  let ?t = "dropWhile is_space (dropWhile is_digit (dropWhile is_space r0))"
  have "?t \<noteq> []" using f by (cases ?t) simp_all
  then have "length r < length ?t" unfolding r by simp
  also have "length ?t \<le> length (dropWhile is_digit (dropWhile is_space r0))"
    by (rule length_dropWhile_le)
  also have "\<dots> \<le> length (dropWhile is_space r0)" by (rule length_dropWhile_le)
  also have "\<dots> \<le> length r0" by (rule length_dropWhile_le)
  also note r0
  finally have "length r < length (c # cs)" .
  moreover have "length (dropWhile (\<lambda>x. x \<noteq> 0x0A) r) \<le> length r" by (rule length_dropWhile_le)
  ultimately show "(dropWhile (\<lambda>x. x \<noteq> 0x0A) r, c # cs) \<in> measure length" by simp
qed

text \<open>\<open>raw.split("/")[-1]\<close>\<close>

definition last_segment :: "ustr \<Rightarrow> ustr" where
  "last_segment raw = rev (takeWhile (\<lambda>c. c \<noteq> 0x2F) (rev raw))"

text \<open>
  The loop over the station cells: a cell without text or without a station name is
  skipped, and the loop stops as soon as two stations are collected.
\<close>

fun stations_loop ::
    "'s translator \<Rightarrow> element list \<Rightarrow> (ustr \<times> nat option) list
      \<Rightarrow> ((ustr \<times> nat option) list, 's) run" where
  "stations_loop translate [] items w = (Inr items, w)"
| "stations_loop translate (d # ds) items w =
     (let raw = get_text_strip d in
      if raw = [] then stations_loop translate ds items w
      else
        let st_part = normalize_spaces (if contains raw [0x2F] then last_segment raw else raw)
        in case parse_minutes st_part of
             Inl e \<Rightarrow> (Inl e, w)
           | Inr minutes \<Rightarrow>
               (let st_clean = strip (replace (remove_walk st_part) [EKI] [])
                in if st_clean = [] then stations_loop translate ds items w
                   else
                     case (case map_of STATION_ALIASES st_clean of
                             Some alias \<Rightarrow> ret alias
                           | None \<Rightarrow>
                               bind (safe_translate translate st_clean ja en) (\<lambda>en_text.
                                 ret (normalize_station_en en_text))) w of
                       (Inl e, w') \<Rightarrow> (Inl e, w')
                     | (Inr station_en, w') \<Rightarrow>
                         (let items' = items @ [(station_en, minutes)]
                          in if 2 \<le> length items' then (Inr items', w')
                             else stations_loop translate ds items' w')))"

definition extract_stations_and_minutes ::
    "'s translator \<Rightarrow> soup \<Rightarrow> ((ustr \<times> nat option) list, 's) run" where
  "extract_stations_and_minutes translate sp =
     (case find_th sp EKI_TOHO of
        None \<Rightarrow> ret []
      | Some row \<Rightarrow>
          (case th_next_td row of
             None \<Rightarrow> ret []
           | Some td \<Rightarrow> stations_loop translate (td_reads td) []))"

text \<open>
  The images with an absolute URL, in document order; an image is the URL of its
  dictionary \<open>{"url": src}\<close>.
\<close>

definition image_url :: "img \<Rightarrow> ustr option" where
  "image_url i =
     (let s = (if truthy (img_data_src i) then img_data_src i else img_src i)
      in case s of
           Some u \<Rightarrow> if u \<noteq> [] \<and> startswith u (U ''http'') then Some u else None
         | None \<Rightarrow> None)"

definition extract_images :: "soup \<Rightarrow> ustr option \<times> ustr option \<times> ustr list" where
  "extract_images sp =
     (let imgs = List.map_filter image_url (gallery_imgs sp)
      in (if 0 < length imgs then Some (imgs ! 0) else None,
          if 1 < length imgs then Some (imgs ! 1) else None,
          if 2 < length imgs then drop 2 imgs else []))"

section \<open>Public API\<close>

text \<open>The loop over the deposit and key-money spans; a later span overrides an earlier one.\<close>

fun deposit_and_key_money :: "element list \<Rightarrow> ustr \<Rightarrow> ustr \<Rightarrow> exn + (ustr \<times> ustr)" where
  "deposit_and_key_money [] deposit key_money = Inr (deposit, key_money)"
| "deposit_and_key_money (sp # sps) deposit key_money =
     (let t = get_text_strip sp in
      if contains t SHIKIKIN
      then (case parse_price t of
              Inl e \<Rightarrow> Inl e
            | Inr d \<Rightarrow> deposit_and_key_money sps d key_money)
      else if contains t REIKIN
      then (case parse_price t of
              Inl e \<Rightarrow> Inl e
            | Inr k \<Rightarrow> deposit_and_key_money sps deposit k)
      else deposit_and_key_money sps deposit key_money)"

text \<open>
  The loop over the stations (lines 425 to 430): each name goes to
  \<open>airtable_get_or_create_by_name\<close>.
\<close>

fun resolve_stations ::
    "config \<Rightarrow> (ustr \<times> nat option) list \<Rightarrow> ustr option list \<Rightarrow> nat option list
      \<Rightarrow> (ustr option list \<times> nat option list, 's) run" where
  "resolve_stations cfg [] station_ids minutes_list w = (Inr (station_ids, minutes_list), w)"
| "resolve_stations cfg ((st_en, mins) # stations) station_ids minutes_list w =
     (case airtable_get_or_create_by_name (stations_table_id cfg) st_en w of
        (Inl e, w') \<Rightarrow> (Inl e, w')
      | (Inr st_id, w') \<Rightarrow>
          resolve_stations cfg stations (station_ids @ [st_id]) (minutes_list @ [mins]) w')"

text \<open>\<open>while len(xs) < 2: xs.append(None)\<close>\<close>

function pad_to_two :: "'a option list \<Rightarrow> 'a option list" where
  "pad_to_two xs = (if length xs < 2 then pad_to_two (xs @ [None]) else xs)"
  by pat_completeness auto
termination
  by (relation "measure (\<lambda>xs. 2 - length xs)") auto

declare pad_to_two.simps [simp del]

text \<open>\<open>f(x) if x else d\<close> for an optional string \<open>x\<close>.\<close>

definition when_truthy :: "ustr option \<Rightarrow> (ustr \<Rightarrow> 'a) \<Rightarrow> 'a \<Rightarrow> 'a" where
  "when_truthy x f d = (case x of Some v \<Rightarrow> if v \<noteq> [] then f v else d | None \<Rightarrow> d)"

text \<open>
  \<open>int(s)\<close> for the rent text without its commas: a run of digits. The other forms
  \<open>int()\<close> accepts (a sign, blanks, underscores) do not occur in a result of
  \<open>parse_price\<close>.
\<close>

definition int_of_text :: "ustr \<Rightarrow> exn + int" where
  "int_of_text s =
     (if s \<noteq> [] \<and> list_all is_digit s
      then (case int_of_digits s of Inl e \<Rightarrow> Inl e | Inr n \<Rightarrow> Inr (int n))
      else Inl ValueError)"

text \<open>The local variables of \<open>get_suumo_data\<close> that the payload is built from.\<close>

record locals =
  l_name :: ustr
  l_rent :: ustr
  l_mgmt :: ustr
  l_layout_id :: "ustr option"
  l_size :: ustr
  l_area_id :: "ustr option"
  l_street_en :: "ustr option"
  l_deposit :: ustr
  l_key_money :: ustr
  l_cover_img :: "ustr option"
  l_plan_img :: "ustr option"
  l_gallery_imgs :: "ustr list"
  l_station_ids :: "ustr option list"
  l_minutes_list :: "nat option list"
  l_prop_cat_id :: "ustr option"
  l_kind_id :: "ustr option"
  l_pr_id :: "ustr option"

text \<open>
  Lines 388 to 455: the page is fetched and parsed (\<open>http_get\<close> stands for the request,
  \<open>raise_for_status\<close> and the parser), then the fields are extracted and the links resolved.
\<close>

definition gather :: "'s translator \<Rightarrow> config \<Rightarrow> ustr \<Rightarrow> soup \<Rightarrow> (locals, 's) run" where
  "gather translate cfg url sp =
     bind (extract_name translate sp) (\<lambda>name.
     bind (lift (extract_rent_and_fee sp)) (\<lambda>(rent, mgmt).
     bind (lift (extract_layout_and_size sp)) (\<lambda>(layout_jp, size).
     bind (get_layout_record_id cfg layout_jp) (\<lambda>layout_id.
     bind (lift (extract_address_jp sp)) (\<lambda>address_jp.
     bind (split_address_to_area_and_street translate
             (case address_jp of Some a \<Rightarrow> a | None \<Rightarrow> [])) (\<lambda>(ward_jp, street_en).
     bind (when_truthy ward_jp (get_or_create_area_id translate cfg) (ret None)) (\<lambda>area_id.
     bind (lift (deposit_and_key_money (note_list_spans sp) (U ''0'') (U ''0'')))
       (\<lambda>(deposit, key_money).
     bind (extract_stations_and_minutes translate sp) (\<lambda>stations.
     bind (resolve_stations cfg stations [] []) (\<lambda>(station_ids, minutes_list).
     bind (when_truthy
             (when_truthy (extract_property_category_jp sp) map_property_category_jp_to_en None)
             (get_property_category_id cfg) (ret None)) (\<lambda>prop_cat_id.
     bind (when_truthy (map_property_kind_from_url url) (get_property_kind_id cfg) (ret None))
       (\<lambda>kind_id.
     bind (get_price_range_id cfg
             (price_range_label
               (case int_of_text (replace rent (U '','') []) of Inl e \<Rightarrow> 0 | Inr n \<Rightarrow> n)))
       (\<lambda>pr_id.
       ret \<lparr>l_name = name, l_rent = rent, l_mgmt = mgmt, l_layout_id = layout_id,
            l_size = size, l_area_id = area_id, l_street_en = street_en,
            l_deposit = deposit, l_key_money = key_money,
            l_cover_img = fst (extract_images sp),
            l_plan_img = fst (snd (extract_images sp)),
            l_gallery_imgs = snd (snd (extract_images sp)),
            l_station_ids = pad_to_two station_ids,
            l_minutes_list = pad_to_two minutes_list,
            l_prop_cat_id = prop_cat_id, l_kind_id = kind_id, l_pr_id = pr_id\<rparr>)))))))))))))"

text \<open>Python values of the payload.\<close>

datatype pyval = PyNone | PyStr ustr | PyInt int | PyList "pyval list" | PyDict "(ustr \<times> pyval) list"

text \<open>\<open>[x] if x else []\<close> for an identifier and for an image, and an optional number.\<close>

definition link :: "ustr option \<Rightarrow> pyval" where
  "link x = when_truthy x (\<lambda>v. PyList [PyStr v]) (PyList [])"

definition image_dict :: "ustr \<Rightarrow> pyval" where
  "image_dict u = PyDict [(U ''url'', PyStr u)]"

definition image_list :: "ustr option \<Rightarrow> pyval" where
  "image_list x = (case x of Some u \<Rightarrow> PyList [image_dict u] | None \<Rightarrow> PyList [])"

definition optional_int :: "nat option \<Rightarrow> pyval" where
  "optional_int x = (case x of Some n \<Rightarrow> PyInt (int n) | None \<Rightarrow> PyNone)"

text \<open>\<open>xs[i]\<close> raises \<open>IndexError\<close> out of range.\<close>

definition item :: "'a list \<Rightarrow> nat \<Rightarrow> exn + 'a" where
  "item xs i = (if i < length xs then Inr (xs ! i) else Inl IndexError)"

text \<open>Lines 458 to 485: the dictionary literal, its entries in source order.\<close>

definition build_payload :: "locals \<Rightarrow> exn + (ustr \<times> pyval) list" where
  "build_payload l =
     bind_e (item (l_station_ids l) 0) (\<lambda>station0.
     bind_e (item (l_minutes_list l) 0) (\<lambda>minutes0.
     bind_e (item (l_station_ids l) 1) (\<lambda>station1.
     bind_e (item (l_minutes_list l) 1) (\<lambda>minutes1.
       Inr [(U ''Name'', PyStr (l_name l)),
            (U ''Property Price'', PyStr (l_rent l)),
            (U ''Property Management Fee'', PyStr (l_mgmt l)),
            (U ''Property Layout'', link (l_layout_id l)),
            (U ''Property Size'', PyStr (l_size l)),
            (U ''Property Locations'', link (l_area_id l)),
            (U ''Location'', PyStr (case l_street_en l of Some s \<Rightarrow> s | None \<Rightarrow> [])),
            (U ''Property Deposit'', PyStr (l_deposit l)),
            (U ''Property Key Money'', PyStr (l_key_money l)),
            (U ''Property Cover Image'', image_list (l_cover_img l)),
            (U ''Property Plan Image'', image_list (l_plan_img l)),
            (U ''Property Images'', PyList (map image_dict (l_gallery_imgs l))),
            (U ''Access One: Train Station'', link station0),
            (U ''Access One: Minutes to Walk'', optional_int minutes0),
            (U ''Access Two: Train Station'', link station1),
            (U ''Access Two: Minutes to Walk'', optional_int minutes1),
            (U ''Property Categories'', link (l_prop_cat_id l)),
            (U ''Property Type'', link (l_kind_id l)),
            (U ''Property Price Range'', link (l_pr_id l))]))))"

definition get_suumo_data ::
    "(ustr \<Rightarrow> exn + soup) \<Rightarrow> 's translator \<Rightarrow> config \<Rightarrow> ustr
      \<Rightarrow> ((ustr \<times> pyval) list, 's) run" where
  "get_suumo_data http_get translate cfg url =
     bind (lift (http_get url)) (\<lambda>sp.
     bind (gather translate cfg url sp) (\<lambda>l.
       lift (build_payload l)))"

section \<open>Specification-side definitions\<close>

text \<open>The ten price-range labels of the specification, lowest band first.\<close>

definition price_range_labels :: "ustr list" where
  "price_range_labels =
     [yen ''100~199K'', yen ''200~299K'', yen ''300~399K'', yen ''400~499K'', yen ''500~599K'',
      yen ''600~699K'', yen ''700~799K'', yen ''800~899K'', yen ''900~999K'', yen ''1M~'']"

text \<open>
  The band of an amount as the specification words it: divide by 1000, then 100-wide bands
  from below 200 up to 1000 and above; a non-positive amount falls into the lowest band.
\<close>

definition spec_price_band :: "int \<Rightarrow> nat" where
  "spec_price_band amount =
     (if amount \<le> 0 then 0
      else let k = amount div 1000 in
        if k < 200 then 0 else if 1000 \<le> k then 9 else nat (k div 100) - 1)"


section \<open>Sample services and worlds\<close>

text \<open>A service that is down: every call raises. Its state counts the calls.\<close>

definition down_service :: "nat translator" where
  "down_service n text src dest = (Inl (ServiceError n), Suc n)"

text \<open>A service that answers: it returns the text behind the tag \<open>en:\<close>.\<close>

definition tagging_service :: "nat translator" where
  "tagging_service n text src dest = (Inr (U ''en:'' @ text), Suc n)"

definition empty_store :: store where
  "empty_store = \<lparr>rows = [], created = 0\<rparr>"

definition fresh_world :: "nat world" where
  "fresh_world = \<lparr>service = 0, db = empty_store\<rparr>"

text \<open>
  Price fragments: \<open>16.4\<close> and \<open>10000\<close> with their units (U+4E07 is the ten-thousand
  marker, U+5186 the yen), and two fragments with the marker whose number is malformed:
  a lone dot, and \<open>1.2.3\<close>.
\<close>

definition price_man :: ustr where
  "price_man = U ''16.4'' @ [MAN, 0x5186]"

definition price_yen :: ustr where
  "price_yen = U ''10000'' @ [0x5186]"

definition price_dot :: ustr where
  "price_dot = [0x2E, MAN, 0x5186]"

definition price_dots :: ustr where
  "price_dots = U ''1.2.3'' @ [MAN, 0x5186]"

text \<open>
  Two addresses: one in Setagaya ward (U+6771 U+4EAC U+90FD, then the ward name, U+533A and the
  street) and one in the city of Hachioji, which has no ward.
\<close>

definition addr_setagaya :: ustr where
  "addr_setagaya = [0x6771, 0x4EAC, 0x90FD, 0x4E16, 0x7530, 0x8C37, 0x533A, 0x7389, 0x5824, 0xFF12]"

definition addr_hachioji :: ustr where
  "addr_hachioji = [0x6771, 0x4EAC, 0x90FD, 0x516B, 0x738B, 0x5B50, 0x5E02]"

text \<open>
  A configuration, a rental URL, a page on which no extractor finds anything, and a page
  whose only content is the access row with one station cell: a line name, a slash, the
  station U+5357 U+65B0 U+5BBF with the station marker, and three minutes on foot.
\<close>

definition sample_cfg :: config where
  "sample_cfg =
     \<lparr>stations_table_id = U ''tblStations'', layouts_table_id = U ''tblLayouts'',
      prop_types_table_id = U ''tblTypes'', areas_table_id = U ''tblAreas'',
      price_range_table_id = U ''tblPrices'', property_kind_table_id = U ''tblKinds''\<rparr>"

definition sample_url :: ustr where
  "sample_url = U ''https://suumo.jp/chintai/jnc_000000000/''"

definition empty_page :: soup where
  "empty_page =
     \<lparr>h1_title = None, rent_emphasis = None, note_info_spans = [], note_list_spans = [],
      th_cells = [], view_table_rows = [], gallery_imgs = []\<rparr>"

definition station_cell :: element where
  "station_cell =
     [[0x5C0F, 0x7530, 0x6025, 0x7DDA, 0x2F, 0x5357, 0x65B0, 0x5BBF, 0x99C5, 0x20, 0x6B69, 0x33, 0x5206]]"

definition station_page :: soup where
  "station_page =
     empty_page\<lparr>th_cells :=
       [\<lparr>th_string = Some EKI_TOHO,
         th_next_td = Some \<lparr>td_text = station_cell, td_reads = [station_cell]\<rparr>\<rparr>]\<rparr>"

text \<open>
  A store that knows the rental kind and the station under its space-separated name.
\<close>

definition sample_store :: store where
  "sample_store =
     \<lparr>rows = [(U ''tblKinds'', U ''recKind'', U ''For Rent''),
              (U ''tblStations'', U ''recOld'', U ''Minami Shinjuku'')],
      created = 0\<rparr>"

definition sample_world :: "nat world" where
  "sample_world = \<lparr>service = 0, db = sample_store\<rparr>"

text \<open>Every record identifier of the store is a non-empty string.\<close>

definition ids_nonempty :: "store \<Rightarrow> bool" where
  "ids_nonempty st \<longleftrightarrow> (\<forall>(t, rid, n) \<in> set (rows st). rid \<noteq> [])"

text \<open>
  The station cell behind its last slash, the world after the pipeline has created the
  station, and the local variables and the payload of that run.
\<close>

definition station_text :: ustr where
  "station_text = [0x5357, 0x65B0, 0x5BBF, 0x99C5, 0x20, 0x6B69, 0x33, 0x5206]"

definition world_after :: "nat world" where
  "world_after =
     \<lparr>service = 0,
      db = \<lparr>rows = [(U ''tblKinds'', U ''recKind'', U ''For Rent''),
                     (U ''tblStations'', U ''recOld'', U ''Minami Shinjuku''),
                     (U ''tblStations'', U ''rec0'', U ''Minami-Shinjuku'')],
            created = 1\<rparr>\<rparr>"

definition station_locals :: locals where
  "station_locals =
     \<lparr>l_name = U ''N/A'', l_rent = U ''0'', l_mgmt = U ''0'', l_layout_id = None,
      l_size = U ''N/A'', l_area_id = None, l_street_en = None, l_deposit = U ''0'',
      l_key_money = U ''0'', l_cover_img = None, l_plan_img = None, l_gallery_imgs = [],
      l_station_ids = [Some (U ''rec0''), None], l_minutes_list = [Some 3, None],
      l_prop_cat_id = None, l_kind_id = Some (U ''recKind''), l_pr_id = None\<rparr>"

definition station_payload :: "(ustr \<times> pyval) list" where
  "station_payload =
     [(U ''Name'', PyStr (U ''N/A'')),
      (U ''Property Price'', PyStr (U ''0'')),
      (U ''Property Management Fee'', PyStr (U ''0'')),
      (U ''Property Layout'', PyList []),
      (U ''Property Size'', PyStr (U ''N/A'')),
      (U ''Property Locations'', PyList []),
      (U ''Location'', PyStr []),
      (U ''Property Deposit'', PyStr (U ''0'')),
      (U ''Property Key Money'', PyStr (U ''0'')),
      (U ''Property Cover Image'', PyList []),
      (U ''Property Plan Image'', PyList []),
      (U ''Property Images'', PyList []),
      (U ''Access One: Train Station'', PyList [PyStr (U ''rec0'')]),
      (U ''Access One: Minutes to Walk'', PyInt 3),
      (U ''Access Two: Train Station'', PyList []),
      (U ''Access Two: Minutes to Walk'', PyNone),
      (U ''Property Categories'', PyList []),
      (U ''Property Type'', PyList [PyStr (U ''recKind'')]),
      (U ''Property Price Range'', PyList [])]"

text \<open>The local variables and the payload of the page on which nothing is found.\<close>

definition empty_locals :: locals where
  "empty_locals =
     \<lparr>l_name = U ''N/A'', l_rent = U ''0'', l_mgmt = U ''0'', l_layout_id = None,
      l_size = U ''N/A'', l_area_id = None, l_street_en = None, l_deposit = U ''0'',
      l_key_money = U ''0'', l_cover_img = None, l_plan_img = None, l_gallery_imgs = [],
      l_station_ids = [None, None], l_minutes_list = [None, None], l_prop_cat_id = None,
      l_kind_id = None, l_pr_id = None\<rparr>"

definition empty_payload :: "(ustr \<times> pyval) list" where
  "empty_payload =
     [(U ''Name'', PyStr (U ''N/A'')),
      (U ''Property Price'', PyStr (U ''0'')),
      (U ''Property Management Fee'', PyStr (U ''0'')),
      (U ''Property Layout'', PyList []),
      (U ''Property Size'', PyStr (U ''N/A'')),
      (U ''Property Locations'', PyList []),
      (U ''Location'', PyStr []),
      (U ''Property Deposit'', PyStr (U ''0'')),
      (U ''Property Key Money'', PyStr (U ''0'')),
      (U ''Property Cover Image'', PyList []),
      (U ''Property Plan Image'', PyList []),
      (U ''Property Images'', PyList []),
      (U ''Access One: Train Station'', PyList []),
      (U ''Access One: Minutes to Walk'', PyNone),
      (U ''Access Two: Train Station'', PyList []),
      (U ''Access Two: Minutes to Walk'', PyNone),
      (U ''Property Categories'', PyList []),
      (U ''Property Type'', PyList []),
      (U ''Property Price Range'', PyList [])]"

text \<open>
  The street text of an address without a ward, as far as the design fixes it: it is made
  from the whole address as given, prefix included. It is that address itself or what the
  translation wrapper makes of it, whitespace-normalized or not.
\<close>

definition whole_address_text :: "'s translator \<Rightarrow> ustr \<Rightarrow> ustr \<Rightarrow> bool" where
  "whole_address_text translate address_jp street \<longleftrightarrow>
     street = address_jp \<or>
     (\<exists>w s w'. safe_translate translate address_jp ja en w = (Inr s, w') \<and>
        (street = s \<or> street = normalize_spaces s))"

text \<open>The convention for link fields as the specification words it.\<close>

fun spec_link :: "ustr option \<Rightarrow> pyval" where
  "spec_link None = PyList []"
| "spec_link (Some rid) = PyList [PyStr rid]"

text \<open>The keys of the payload, in the order of the dictionary literal.\<close>

definition payload_keys :: "ustr list" where
  "payload_keys =
     [U ''Name'', U ''Property Price'', U ''Property Management Fee'', U ''Property Layout'',
      U ''Property Size'', U ''Property Locations'', U ''Location'', U ''Property Deposit'',
      U ''Property Key Money'', U ''Property Cover Image'', U ''Property Plan Image'',
      U ''Property Images'', U ''Access One: Train Station'', U ''Access One: Minutes to Walk'',
      U ''Access Two: Train Station'', U ''Access Two: Minutes to Walk'',
      U ''Property Categories'', U ''Property Type'', U ''Property Price Range'']"

text \<open>
  A step keeps an invariant of the world and, when it returns, its value has a property.
\<close>

definition triple :: "('s world \<Rightarrow> bool) \<Rightarrow> ('a, 's) run \<Rightarrow> ('a \<Rightarrow> bool) \<Rightarrow> bool" where
  "triple I m Q \<longleftrightarrow> (\<forall>w. I w \<longrightarrow> I (snd (m w)) \<and> (\<forall>x. fst (m w) = Inr x \<longrightarrow> Q x))"

text \<open>An invariant that depends on the store only and survives the creation of a record.\<close>

definition stable :: "('s world \<Rightarrow> bool) \<Rightarrow> bool" where
  "stable I \<longleftrightarrow>
     (\<forall>w s. I w \<longrightarrow> I (w\<lparr>service := s\<rparr>)) \<and>
     (\<forall>w t n. I w \<longrightarrow> I (w\<lparr>db := snd (table_create (db w) t n)\<rparr>))"

definition good_id :: "ustr option \<Rightarrow> bool" where
  "good_id x \<longleftrightarrow> x \<noteq> Some []"

text \<open>
  An invariant and a property of identifiers that fit the store: the invariant is stable,
  and every lookup and every creation returns an identifier with the property.
\<close>

definition resolver :: "('s world \<Rightarrow> bool) \<Rightarrow> (ustr option \<Rightarrow> bool) \<Rightarrow> bool" where
  "resolver I G \<longleftrightarrow>
     stable I \<and> G None \<and>
     (\<forall>t n. triple I (airtable_find_by_name t n) G) \<and>
     (\<forall>t n. triple I (airtable_create t n) G)"

section \<open>Evaluation\<close>

text \<open>Unfolding these definitions lets the simplifier run the model on a concrete input.\<close>

lemmas string_eval =
  U_def yen_def is_space_def strip_def replace_def replace1_def title_def is_cased_def is_upper_def
  is_lower_def to_lower_full_def to_title_full_def lower_in_context_def normalize_spaces_def

lemmas text_eval =
  decimal_value_def decimal_zeros_def is_digit_def is_digit_or_dot_def search_run_def
  string_eval MAN_def

lemmas float_eval = bit_length.simps floor_log2_def round_half_even_def round_to_double_def

lemmas format_eval = digits.simps format_commas_def U_def

section \<open>Prices\<close>

lemma float_16_4: "float_of_str (U ''16.4'') = Inr (Finite 4616189618054758 (-48))"
  by (simp add: text_eval decimal_number_def float_of_str_def) (simp add: float_eval)

lemma mul_16_4: "float_mul (Finite 4616189618054758 (-48)) 10000 = Finite 5634997092352000 (-35)"
  by (simp add: float_mul_def) (simp add: float_eval)

lemma int_16_4: "int_of_float (Finite 5634997092352000 (-35)) = Inr 164000"
  by (simp add: int_of_float_def)

lemma fmt_164000: "format_commas 164000 = U ''164,000''"
  by (simp add: format_eval)

lemma price_man_steps: "price_man \<noteq> []" "replace price_man (U '','') [] = price_man"
  "contains price_man [MAN]" "search_run is_digit_or_dot price_man = Some (U ''16.4'')"
  by (simp_all add: price_man_def text_eval)

lemma parse_price_man: "parse_price price_man = Inr (U ''164,000'')"
  by (simp add: parse_price_def price_man_steps float_16_4 mul_16_4 int_16_4 fmt_164000)

lemma price_yen_steps: "price_yen \<noteq> []" "replace price_yen (U '','') [] = price_yen"
  "\<not> contains price_yen [MAN]" "search_run is_digit price_yen = Some (U ''10000'')"
  by (simp_all add: price_yen_def text_eval)

lemma int_10000: "int_of_digits (U ''10000'') = Inr 10000"
  by (simp add: int_of_digits_def int_max_str_digits_def decimal_number_def text_eval)

lemma fmt_10000: "format_commas 10000 = U ''10,000''"
  by (simp add: format_eval)

lemma parse_price_yen: "parse_price price_yen = Inr (U ''10,000'')"
  by (simp add: parse_price_def price_yen_steps int_10000 fmt_10000)

lemma price_dot_steps: "price_dot \<noteq> []" "replace price_dot (U '','') [] = price_dot"
  "contains price_dot [MAN]" "search_run is_digit_or_dot price_dot = Some (U ''.'')"
  "float_of_str (U ''.'') = Inl ValueError"
  by (simp_all add: price_dot_def text_eval float_of_str_def)

lemma parse_price_dot: "parse_price price_dot = Inl ValueError"
  by (simp add: parse_price_def price_dot_steps)

lemma price_dots_steps: "price_dots \<noteq> []" "replace price_dots (U '','') [] = price_dots"
  "contains price_dots [MAN]" "search_run is_digit_or_dot price_dots = Some (U ''1.2.3'')"
  "float_of_str (U ''1.2.3'') = Inl ValueError"
  by (simp_all add: price_dots_def text_eval float_of_str_def)

lemma parse_price_dots: "parse_price price_dots = Inl ValueError"
  by (simp add: parse_price_def price_dots_steps)

text \<open>
  Claim C1. The three examples of the specification evaluate as stated. But with the
  ten-thousand marker present, a fragment whose first run of digits and dots is not a
  number makes \<open>parse_price\<close> raise \<open>ValueError\<close>: a lone dot, where no digit is found
  and the claim promises the textual zero, and \<open>1.2.3\<close>.
\<close>

theorem parse_price_malformed_number:
  "parse_price price_man = Inr (U ''164,000'')
   \<and> parse_price price_yen = Inr (U ''10,000'')
   \<and> parse_price [] = Inr (U ''0'')
   \<and> parse_price price_dot = Inl ValueError
   \<and> parse_price price_dots = Inl ValueError"
  using parse_price_man parse_price_yen parse_price_dot parse_price_dots
  by (simp add: parse_price_def)

section \<open>Price ranges\<close>

lemma div100:
  fixes k j :: int
  assumes "100 * j \<le> k" "k < 100 * j + 100"
  shows "k div 100 = j"
  by (rule int_div_pos_eq[of k 100 j "k - 100 * j"]) (use assms in simp_all)

lemmas band_unfold = price_range_label_def spec_price_band_def price_range_labels_def

lemma price_range_label_band: "price_range_label n = price_range_labels ! spec_price_band n"
proof (cases "n \<le> 0")
  case True
  then show ?thesis by (simp add: band_unfold)
next
  case False
  define k where "k = n div 1000"
  consider "k < 200" | "200 \<le> k \<and> k \<le> 299" | "300 \<le> k \<and> k \<le> 399"
    | "400 \<le> k \<and> k \<le> 499" | "500 \<le> k \<and> k \<le> 599" | "600 \<le> k \<and> k \<le> 699"
    | "700 \<le> k \<and> k \<le> 799" | "800 \<le> k \<and> k \<le> 899" | "900 \<le> k \<and> k \<le> 999"
    | "1000 \<le> k" by linarith
  then show ?thesis
  proof cases
    case 1
    then show ?thesis using False by (simp add: band_unfold k_def[symmetric])
  next
    case 2
    then have "k div 100 = 2" by (intro div100) simp_all
    with 2 show ?thesis using False by (simp add: band_unfold k_def[symmetric])
  next
    case 3
    then have "k div 100 = 3" by (intro div100) simp_all
    with 3 show ?thesis using False by (simp add: band_unfold k_def[symmetric])
  next
    case 4
    then have "k div 100 = 4" by (intro div100) simp_all
    with 4 show ?thesis using False by (simp add: band_unfold k_def[symmetric])
  next
    case 5
    then have "k div 100 = 5" by (intro div100) simp_all
    with 5 show ?thesis using False by (simp add: band_unfold k_def[symmetric])
  next
    case 6
    then have "k div 100 = 6" by (intro div100) simp_all
    with 6 show ?thesis using False by (simp add: band_unfold k_def[symmetric])
  next
    case 7
    then have "k div 100 = 7" by (intro div100) simp_all
    with 7 show ?thesis using False by (simp add: band_unfold k_def[symmetric])
  next
    case 8
    then have "k div 100 = 8" by (intro div100) simp_all
    with 8 show ?thesis using False by (simp add: band_unfold k_def[symmetric])
  next
    case 9
    then have "k div 100 = 9" by (intro div100) simp_all
    with 9 show ?thesis using False by (simp add: band_unfold k_def[symmetric])
  next
    case 10
    then show ?thesis using False by (simp add: band_unfold k_def[symmetric])
  qed
qed

lemma spec_price_band_less: "spec_price_band n < 10"
proof -
  have "nat (k div 100) - 1 < 10" if "k < 1000" for k :: int
    using that by (simp add: nat_less_iff)
  then show ?thesis by (simp add: spec_price_band_def Let_def)
qed

lemma price_range_labels_distinct: "length price_range_labels = 10 \<and> distinct price_range_labels"
  by (simp add: price_range_labels_def yen_def U_def)

lemma price_range_label_nonpositive: "n \<le> 0 \<Longrightarrow> price_range_label n = yen ''100~199K''"
  by (simp add: price_range_label_def)

text \<open>
  Claim C2. For every integer amount, \<open>price_range_label\<close> returns one of ten distinct
  fixed labels, namely the label of the band the specification describes (thousands of the
  amount, in 100-wide bands from below 200 up to 1000 and above); every non-positive amount
  gets the lowest label. In particular 360000, 0 and 1200000 get the labels the
  specification lists.
\<close>

theorem price_range_label_buckets:
  "price_range_label n \<in> set price_range_labels
   \<and> length price_range_labels = 10 \<and> distinct price_range_labels
   \<and> price_range_label n = price_range_labels ! spec_price_band n
   \<and> (n \<le> 0 \<longrightarrow> price_range_label n = yen ''100~199K'')
   \<and> price_range_label 360000 = yen ''300~399K''
   \<and> price_range_label 0 = yen ''100~199K''
   \<and> price_range_label 1200000 = yen ''1M~''"
proof -
  have "spec_price_band n < length price_range_labels"
    using spec_price_band_less price_range_labels_distinct by simp
  then have "price_range_label n \<in> set price_range_labels"
    by (simp add: price_range_label_band)
  moreover have "price_range_label 360000 = yen ''300~399K''"
    "price_range_label 0 = yen ''100~199K''" "price_range_label 1200000 = yen ''1M~''"
    by (simp_all add: price_range_label_def)
  ultimately show ?thesis
    using price_range_labels_distinct price_range_label_band price_range_label_nonpositive
    by blast
qed

theorem price_range_label_buckets_witness:
  "(-5::int) \<le> 0 \<and> price_range_label (-5) = yen ''100~199K''
   \<and> price_range_label (-5) \<in> set price_range_labels"
proof -
  have h: "(-5::int) \<le> 0" by simp
  show ?thesis using price_range_label_buckets [of "-5"] h by blast
qed

section \<open>Station names\<close>

text \<open>
  Claim C6. On the specification's example the normalizer gives the canonical name, but it
  removes every occurrence of \<open>" Station"\<close>, not only a trailing one: a name with the word
  in the middle loses it.
\<close>

theorem normalize_station_en_inner_station:
  "normalize_station_en (U ''minami shinjuku station'') = U ''Minami-Shinjuku''
   \<and> normalize_station_en (U ''tokyo station east'') = U ''Tokyo-East''"
  by (simp add: normalize_station_en_def string_eval)

text \<open>
  Claim C10. Normalizing twice is not the same as normalizing once: with \<open>" Station"\<close>
  removed from inside a word, a lower-case letter is left behind the digit, and the second
  pass title-cases it.
\<close>

theorem normalize_station_en_not_idempotent:
  "normalize_station_en (U ''1 stationb'') = U ''1b''
   \<and> normalize_station_en (U ''1b'') = U ''1B''
   \<and> normalize_station_en (normalize_station_en (U ''1 stationb''))
        \<noteq> normalize_station_en (U ''1 stationb'')"
proof -
  have 1: "normalize_station_en (U ''1 stationb'') = U ''1b''"
    by (simp add: normalize_station_en_def string_eval)
  have 2: "normalize_station_en (U ''1b'') = U ''1B''"
    by (simp add: normalize_station_en_def string_eval)
  have 3: "U ''1B'' \<noteq> U ''1b''" by (simp add: U_def)
  show ?thesis by (simp only: 1 2 3 simp_thms)
qed

section \<open>Translation\<close>

text \<open>
  Claim C8. Whatever the translation service does, \<open>safe_translate\<close> returns a text and
  never raises: when the service raises, the result is the input text itself; when it
  answers a non-empty text, the result is its answer; an empty text is returned as it is,
  and the service is left in the state it was in, so it was not called.
\<close>

theorem safe_translate_never_raises:
  "(\<exists>t w'. safe_translate tr text src dest w = (Inr t, w'))
   \<and> (\<forall>e s'. tr (service w) text src dest = (Inl e, s')
         \<longrightarrow> fst (safe_translate tr text src dest w) = Inr text)
   \<and> (\<forall>t s'. text \<noteq> [] \<and> tr (service w) text src dest = (Inr t, s')
         \<longrightarrow> safe_translate tr text src dest w = (Inr t, w\<lparr>service := s'\<rparr>))
   \<and> safe_translate tr [] src dest w = (Inr [], w)"
  by (auto simp: safe_translate_def split: prod.splits sum.splits)

theorem safe_translate_never_raises_witness:
  "down_service (service fresh_world) (U ''abc'') ja en = (Inl (ServiceError 0), 1)
   \<and> fst (safe_translate down_service (U ''abc'') ja en fresh_world) = Inr (U ''abc'')
   \<and> U ''abc'' \<noteq> []
   \<and> tagging_service (service fresh_world) (U ''abc'') ja en = (Inr (U ''en:abc''), 1)
   \<and> safe_translate tagging_service (U ''abc'') ja en fresh_world
        = (Inr (U ''en:abc''), fresh_world\<lparr>service := 1\<rparr>)"
proof -
  have d: "down_service (service fresh_world) (U ''abc'') ja en = (Inl (ServiceError 0), 1)"
    by (simp add: down_service_def fresh_world_def)
  have t: "U ''abc'' \<noteq> [] \<and> tagging_service (service fresh_world) (U ''abc'') ja en = (Inr (U ''en:abc''), 1)"
    by (simp add: tagging_service_def fresh_world_def U_def)
  from safe_translate_never_raises [of down_service "U ''abc''" ja en fresh_world] d
  have 1: "fst (safe_translate down_service (U ''abc'') ja en fresh_world) = Inr (U ''abc'')"
    by blast
  from safe_translate_never_raises [of tagging_service "U ''abc''" ja en fresh_world] t
  have 2: "safe_translate tagging_service (U ''abc'') ja en fresh_world
        = (Inr (U ''en:abc''), fresh_world\<lparr>service := 1\<rparr>)"
    by blast
  show ?thesis using d t 1 2 by blast
qed


section \<open>Get or create\<close>

lemma table_all_create:
  "table_all (snd (table_create st t n)) t n = table_all st t n @ [fst (table_create st t n)]"
  by (simp add: table_all_def table_create_def Let_def)

lemma fresh_id_nonempty: "fst (table_create st t n) \<noteq> []"
  by (simp add: table_create_def Let_def U_def)

lemma table_all_nonempty: "ids_nonempty st \<Longrightarrow> rid \<in> set (table_all st t n) \<Longrightarrow> rid \<noteq> []"
  by (auto simp: ids_nonempty_def table_all_def)

lemma find_existing:
  assumes "name \<noteq> []" "table_all (db w) t name = rid # others"
  shows "airtable_find_by_name t name w = (Inr (Some rid), w)"
  using assms by (simp add: airtable_find_by_name_def)

lemma get_existing:
  assumes "name \<noteq> []" "table_all (db w) t name = rid # others" "rid \<noteq> []"
  shows "airtable_get_or_create_by_name t name w = (Inr (Some rid), w)"
  using assms by (simp add: airtable_get_or_create_by_name_def bind_def find_existing ret_def)

lemma get_missing:
  assumes "table_all (db w) t name = []"
  shows "airtable_get_or_create_by_name t name w = airtable_create t name w"
  using assms by (simp add: airtable_get_or_create_by_name_def bind_def airtable_find_by_name_def)

text \<open>
  Claim C5. For a non-empty name, in a store whose record identifiers are non-empty
  strings, the first resolution returns an identifier and the second one, run in the world
  the first one left, returns the same identifier and leaves that world as it is: it
  creates nothing. If the name had no record, the first call leaves exactly one.
\<close>

theorem get_or_create_twice:
  assumes "name \<noteq> []" "ids_nonempty (db w)"
  shows "\<exists>rid w1. airtable_get_or_create_by_name t name w = (Inr (Some rid), w1)
           \<and> airtable_get_or_create_by_name t name w1 = (Inr (Some rid), w1)
           \<and> (table_all (db w) t name \<noteq> [] \<longrightarrow> w1 = w)
           \<and> (table_all (db w) t name = [] \<longrightarrow> table_all (db w1) t name = [rid])"
proof (cases "table_all (db w) t name")
  case Nil
  define rid where "rid = fst (table_create (db w) t name)"
  define w1 where "w1 = w\<lparr>db := snd (table_create (db w) t name)\<rparr>"
  have c: "airtable_get_or_create_by_name t name w = (Inr (Some rid), w1)"
    by (simp add: get_missing[OF Nil] airtable_create_def rid_def w1_def split: prod.splits)
  have a: "table_all (db w1) t name = [rid]"
    by (simp add: w1_def rid_def table_all_create Nil)
  have "rid \<noteq> []" by (simp add: rid_def fresh_id_nonempty)
  with a assms(1) have "airtable_get_or_create_by_name t name w1 = (Inr (Some rid), w1)"
    by (intro get_existing) simp_all
  with c a Nil show ?thesis by simp
next
  case (Cons rid others)
  then have "rid \<noteq> []" using table_all_nonempty[OF assms(2), of rid t name] by simp
  with Cons assms(1) have "airtable_get_or_create_by_name t name w = (Inr (Some rid), w)"
    by (intro get_existing) simp_all
  with Cons show ?thesis by simp
qed

theorem get_or_create_twice_witness:
  "U ''Shibuya'' \<noteq> [] \<and> ids_nonempty (db fresh_world)
   \<and> table_all (db fresh_world) (U ''tblAreas'') (U ''Shibuya'') = []
   \<and> (\<exists>rid w1.
         airtable_get_or_create_by_name (U ''tblAreas'') (U ''Shibuya'') fresh_world = (Inr (Some rid), w1)
         \<and> airtable_get_or_create_by_name (U ''tblAreas'') (U ''Shibuya'') w1 = (Inr (Some rid), w1)
         \<and> table_all (db w1) (U ''tblAreas'') (U ''Shibuya'') = [rid])"
proof -
  have n: "U ''Shibuya'' \<noteq> []" by (simp add: U_def)
  have i: "ids_nonempty (db fresh_world)"
    by (simp add: ids_nonempty_def fresh_world_def empty_store_def)
  have e: "table_all (db fresh_world) (U ''tblAreas'') (U ''Shibuya'') = []"
    by (simp add: table_all_def fresh_world_def empty_store_def)
  show ?thesis
    using get_or_create_twice [OF n i, of "U ''tblAreas''"] n i e by blast
qed

section \<open>Address split\<close>

lemmas addr_eval =
  addr_setagaya_def addr_hachioji_def TOKYO_TO_def KU_def match_ward_def replace1_def

lemma lazy_until_Some:
  "lazy_until d cs = Some (w, r) \<Longrightarrow> cs = w @ d # r \<and> d \<notin> set w \<and> 0x0A \<notin> set w"
proof (induction cs arbitrary: w)
  case Nil
  then show ?case by simp
next
  case (Cons c cs)
  show ?case
  proof (cases "c = d")
    case True
    with Cons.prems show ?thesis by simp
  next
    case False
    with Cons.prems obtain w' where w': "c \<noteq> 0x0A" "lazy_until d cs = Some (w', r)" "w = c # w'"
      by (auto split: if_splits)
    from Cons.IH[OF w'(2)] w' False show ?thesis by auto
  qed
qed

lemma lazy_until_None:
  "lazy_until d cs = None \<longleftrightarrow> \<not> (\<exists>w r. cs = w @ d # r \<and> 0x0A \<notin> set w)"
proof (induction cs)
  case Nil
  then show ?case by simp
next
  case (Cons c cs)
  show ?case
  proof (cases "c = d")
    case True
    have "c # cs = [] @ d # cs \<and> 0x0A \<notin> set ([]::nat list)" using True by simp
    then have "\<exists>w r. c # cs = w @ d # r \<and> 0x0A \<notin> set w" by blast
    with True show ?thesis by simp
  next
    case False
    show ?thesis
    proof (cases "c = 0x0A")
      case True
      have "\<not> (\<exists>w r. c # cs = w @ d # r \<and> 0x0A \<notin> set w)"
      proof
        assume "\<exists>w r. c # cs = w @ d # r \<and> 0x0A \<notin> set w"
        then obtain w r where h: "c # cs = w @ d # r" "0x0A \<notin> set w" by blast
        with False obtain w' where "w = c # w'" by (cases w) auto
        with h True show False by simp
      qed
      with True False show ?thesis by simp
    next
      case nl: False
      have "(\<exists>w r. c # cs = w @ d # r \<and> 0x0A \<notin> set w) \<longleftrightarrow> (\<exists>w r. cs = w @ d # r \<and> 0x0A \<notin> set w)"
      proof
        assume "\<exists>w r. c # cs = w @ d # r \<and> 0x0A \<notin> set w"
        then obtain w r where h: "c # cs = w @ d # r" "0x0A \<notin> set w" by blast
        with False obtain w' where "w = c # w'" by (cases w) auto
        with h have "cs = w' @ d # r \<and> 0x0A \<notin> set w'" by simp
        then show "\<exists>w r. cs = w @ d # r \<and> 0x0A \<notin> set w" by blast
      next
        assume "\<exists>w r. cs = w @ d # r \<and> 0x0A \<notin> set w"
        then obtain w r where h: "cs = w @ d # r" "0x0A \<notin> set w" by blast
        then have "c # cs = (c # w) @ d # r \<and> 0x0A \<notin> set (c # w)" using nl by simp
        then show "\<exists>w r. c # cs = w @ d # r \<and> 0x0A \<notin> set w" by blast
      qed
      with Cons.IH False nl show ?thesis by simp
    qed
  qed
qed

lemma takeWhile_split:
  "\<exists>tail. r = takeWhile P r @ tail \<and> (tail = [] \<or> \<not> P (hd tail))"
proof (intro exI conjI)
  show "r = takeWhile P r @ dropWhile P r" by simp
  show "dropWhile P r = [] \<or> \<not> P (hd (dropWhile P r))"
    by (cases "dropWhile P r = []") (simp_all add: hd_dropWhile)
qed

lemma match_ward_Cons:
  "match_ward (c # cs) =
     (if c = 0x0A then None
      else map_option (\<lambda>(w, r). (c # w, takeWhile (\<lambda>x. x \<noteq> 0x0A) r)) (lazy_until KU cs))"
  by (simp add: match_ward_def)

lemma match_ward_unfold:
  assumes "match_ward t = Some (w, r)"
  shows "\<exists>c cs w' r'. t = c # cs \<and> c \<noteq> 0x0A \<and> lazy_until KU cs = Some (w', r')
           \<and> w = c # w' \<and> r = takeWhile (\<lambda>x. x \<noteq> 0x0A) r'"
proof (cases t)
  case Nil
  with assms show ?thesis by (simp add: match_ward_def)
next
  case (Cons c cs)
  have m: "match_ward (c # cs) = Some (w, r)" using assms Cons by simp
  have c: "c \<noteq> 0x0A"
  proof
    assume "c = 0x0A"
    with m show False by (simp only: match_ward_Cons if_True) simp
  qed
  from m c have e: "map_option (\<lambda>(w, r). (c # w, takeWhile (\<lambda>x. x \<noteq> 0x0A) r)) (lazy_until KU cs) = Some (w, r)"
    by (simp only: match_ward_Cons if_False)
  show ?thesis
  proof (cases "lazy_until KU cs")
    case None
    with e show ?thesis by simp
  next
    case (Some p)
    obtain w' r' where p: "p = (w', r')" by (cases p)
    from e Some p have "w = c # w'" "r = takeWhile (\<lambda>x. x \<noteq> 0x0A) r'" by simp_all
    with Cons c Some p show ?thesis by blast
  qed
qed

lemma match_ward_Some:
  assumes "match_ward t = Some (w, r)"
  shows "\<exists>tail. t = w @ KU # r @ tail \<and> w \<noteq> [] \<and> KU \<notin> set (tl w) \<and> 0x0A \<notin> set w
           \<and> 0x0A \<notin> set r \<and> (tail = [] \<or> hd tail = 0x0A)"
proof -
  from match_ward_unfold[OF assms] obtain c cs w' r' where h: "t = c # cs" "c \<noteq> 0x0A"
      "lazy_until KU cs = Some (w', r')" "w = c # w'" "r = takeWhile (\<lambda>x. x \<noteq> 0x0A) r'"
    by blast
  from lazy_until_Some[OF h(3)] have l: "cs = w' @ KU # r'" "KU \<notin> set w'" "0x0A \<notin> set w'"
    by simp_all
  from takeWhile_split[of r' "\<lambda>x. x \<noteq> 0x0A"] obtain tail
    where tl: "r' = r @ tail" "tail = [] \<or> hd tail = 0x0A"
    unfolding h(5) by blast
  have nr: "0x0A \<notin> set r"
  proof
    assume "0x0A \<in> set r"
    then have "0x0A \<in> set (takeWhile (\<lambda>x. x \<noteq> 0x0A) r')" by (simp add: h(5))
    from set_takeWhileD[OF this] show False by simp
  qed
  have 1: "t = w @ KU # r @ tail" using h(1,4) l(1) tl(1) by simp
  have 2: "w \<noteq> []" using h(4) by simp
  have 3: "KU \<notin> set (tl w)" using h(4) l(2) by simp
  have 4: "0x0A \<notin> set w" using h(2,4) l(3) by simp
  from 1 2 3 4 nr tl(2) show ?thesis by blast
qed

lemma match_ward_None:
  "match_ward t = None \<longleftrightarrow> \<not> (\<exists>w r. w \<noteq> [] \<and> 0x0A \<notin> set w \<and> t = w @ KU # r)"
proof (cases t)
  case Nil
  then show ?thesis by (simp add: match_ward_def)
next
  case (Cons c cs)
  show ?thesis
  proof (cases "c = 0x0A")
    case True
    have "\<not> (\<exists>w r. w \<noteq> [] \<and> 0x0A \<notin> set w \<and> t = w @ KU # r)"
    proof
      assume "\<exists>w r. w \<noteq> [] \<and> 0x0A \<notin> set w \<and> t = w @ KU # r"
      then obtain w r where h: "w \<noteq> []" "0x0A \<notin> set w" "t = w @ KU # r" by blast
      then obtain w' where "w = c # w'" using Cons by (cases w) auto
      with h True show False by simp
    qed
    with True Cons show ?thesis by (simp add: match_ward_def)
  next
    case False
    have "(\<exists>w r. w \<noteq> [] \<and> 0x0A \<notin> set w \<and> t = w @ KU # r) \<longleftrightarrow> (\<exists>w r. cs = w @ KU # r \<and> 0x0A \<notin> set w)"
    proof
      assume "\<exists>w r. w \<noteq> [] \<and> 0x0A \<notin> set w \<and> t = w @ KU # r"
      then obtain w r where h: "w \<noteq> []" "0x0A \<notin> set w" "t = w @ KU # r" by blast
      then obtain w' where "w = c # w'" using Cons by (cases w) auto
      with h Cons have "cs = w' @ KU # r \<and> 0x0A \<notin> set w'" by simp
      then show "\<exists>w r. cs = w @ KU # r \<and> 0x0A \<notin> set w" by blast
    next
      assume "\<exists>w r. cs = w @ KU # r \<and> 0x0A \<notin> set w"
      then obtain w r where "cs = w @ KU # r" "0x0A \<notin> set w" by blast
      then have "c # w \<noteq> [] \<and> 0x0A \<notin> set (c # w) \<and> t = (c # w) @ KU # r"
        using Cons False by simp
      then show "\<exists>w r. w \<noteq> [] \<and> 0x0A \<notin> set w \<and> t = w @ KU # r" by blast
    qed
    with lazy_until_None[of KU cs] Cons False show ?thesis
      by (simp add: match_ward_def)
  qed
qed

lemma safe_translate_returns: "\<exists>t w'. safe_translate tr text src dest w = (Inr t, w')"
  by (auto simp: safe_translate_def split: prod.splits sum.splits)

lemma startswith_append: "startswith (old @ post) old"
  by (induction old) simp_all

lemma startswith_prefix:
  "startswith (xs @ ys) old \<Longrightarrow> length old \<le> length xs \<Longrightarrow> startswith xs old"
proof (induction xs old rule: startswith.induct)
  case (1 s)
  then show ?case by simp
next
  case (2 p ps)
  then show ?case by simp
next
  case (3 c cs p ps)
  then show ?case by simp
qed

lemma replace_first_absent:
  "\<not> contains s old \<Longrightarrow> replace_first_nonempty old new s = s"
  by (induction s) auto

lemma replace_first_split:
  assumes "old \<noteq> []"
  shows "\<not> contains (pre @ butlast old) old \<Longrightarrow>
         replace_first_nonempty old new (pre @ old @ post) = pre @ new @ post"
proof (induction pre)
  case Nil
  obtain c os where old: "old = c # os" using assms by (cases old) auto
  have "startswith (c # os @ post) (c # os)" using startswith_append[of "c # os" post] by simp
  then show ?case by (simp add: old)
next
  case (Cons p ps)
  have ns: "\<not> startswith (p # ps @ old @ post) old"
  proof
    assume a: "startswith (p # ps @ old @ post) old"
    have "p # ps @ old @ post = ((p # ps) @ butlast old) @ (last old # post)"
      using assms by simp
    with a have "startswith (((p # ps) @ butlast old) @ (last old # post)) old" by simp
    then have "startswith ((p # ps) @ butlast old) old"
      by (rule startswith_prefix) (use assms in simp)
    then have "contains ((p # ps) @ butlast old) old" by simp
    with Cons.prems show False by simp
  qed
  have "\<not> contains (ps @ butlast old) old" using Cons.prems by simp
  from Cons.IH[OF this] ns show ?case by simp
qed

lemma replace1_cases:
  "(\<not> contains s TOKYO_TO \<longrightarrow> replace1 s TOKYO_TO [] = s)
   \<and> (\<forall>pre post. s = pre @ TOKYO_TO @ post \<and> \<not> contains (pre @ butlast TOKYO_TO) TOKYO_TO
          \<longrightarrow> replace1 s TOKYO_TO [] = pre @ post)"
proof -
  have n: "TOKYO_TO \<noteq> []" by (simp add: TOKYO_TO_def)
  show ?thesis
    using replace_first_absent[of s TOKYO_TO "[]"] replace_first_split[OF n, of _ "[]"] n
    by (auto simp: replace1_def)
qed

text \<open>
  Claim C7, as amended. For a non-empty address the first occurrence of the prefecture name
  is removed (nothing, if it does not occur) and the result is matched against the ward
  pattern. If it matches, the text splits at the first ward-suffix character behind the
  first character: the part before it, stripped, is the ward, and the part behind it up to
  the end of the line, stripped, translated and whitespace-normalized, is the street. If it
  does not match, the ward is \<open>None\<close> and the street is made from the whole address as
  given, prefix included. The pattern fails exactly when no ward-suffix character follows a
  non-empty run of characters without a line feed.
\<close>

theorem split_address_cases:
  assumes "address_jp \<noteq> []"
  shows "(\<not> contains address_jp TOKYO_TO \<longrightarrow> replace1 address_jp TOKYO_TO [] = address_jp)
       \<and> (\<forall>pre post. address_jp = pre @ TOKYO_TO @ post
              \<and> \<not> contains (pre @ butlast TOKYO_TO) TOKYO_TO
            \<longrightarrow> replace1 address_jp TOKYO_TO [] = pre @ post)
       \<and> (match_ward (replace1 address_jp TOKYO_TO []) = None \<longrightarrow>
            (\<exists>street w'.
               split_address_to_area_and_street tr address_jp w = (Inr (None, Some street), w')
               \<and> whole_address_text tr address_jp street))
       \<and> (\<forall>ward rest. match_ward (replace1 address_jp TOKYO_TO []) = Some (ward, rest) \<longrightarrow>
            (\<exists>tail. replace1 address_jp TOKYO_TO [] = ward @ KU # rest @ tail
                 \<and> ward \<noteq> [] \<and> KU \<notin> set (tl ward) \<and> 0x0A \<notin> set ward \<and> 0x0A \<notin> set rest
                 \<and> (tail = [] \<or> hd tail = 0x0A))
          \<and> (\<exists>street w'. safe_translate tr (strip rest) ja en w = (Inr street, w')
                 \<and> split_address_to_area_and_street tr address_jp w
                     = (Inr (Some (strip ward), Some (normalize_spaces street)), w')))
       \<and> (match_ward (replace1 address_jp TOKYO_TO []) = None \<longleftrightarrow>
            \<not> (\<exists>ward rest. ward \<noteq> [] \<and> 0x0A \<notin> set ward
                  \<and> replace1 address_jp TOKYO_TO [] = ward @ KU # rest))"
proof (intro conjI allI impI)
  assume "\<not> contains address_jp TOKYO_TO"
  then show "replace1 address_jp TOKYO_TO [] = address_jp"
    using replace1_cases by blast
next
  fix pre post
  assume "address_jp = pre @ TOKYO_TO @ post \<and> \<not> contains (pre @ butlast TOKYO_TO) TOKYO_TO"
  then show "replace1 address_jp TOKYO_TO [] = pre @ post"
    using replace1_cases by blast
next
  assume "match_ward (replace1 address_jp TOKYO_TO []) = None"
  with assms have "split_address_to_area_and_street tr address_jp w = (Inr (None, Some address_jp), w)"
    by (simp add: split_address_to_area_and_street_def ret_def)
  moreover have "whole_address_text tr address_jp address_jp"
    by (simp add: whole_address_text_def)
  ultimately show "\<exists>street w'.
      split_address_to_area_and_street tr address_jp w = (Inr (None, Some street), w')
      \<and> whole_address_text tr address_jp street"
    by blast
next
  fix ward rest
  assume "match_ward (replace1 address_jp TOKYO_TO []) = Some (ward, rest)"
  then show "\<exists>tail. replace1 address_jp TOKYO_TO [] = ward @ KU # rest @ tail
                 \<and> ward \<noteq> [] \<and> KU \<notin> set (tl ward) \<and> 0x0A \<notin> set ward \<and> 0x0A \<notin> set rest
                 \<and> (tail = [] \<or> hd tail = 0x0A)"
    by (rule match_ward_Some)
next
  fix ward rest
  assume m: "match_ward (replace1 address_jp TOKYO_TO []) = Some (ward, rest)"
  obtain street w' where s: "safe_translate tr (strip rest) ja en w = (Inr street, w')"
    using safe_translate_returns by blast
  with m assms have "split_address_to_area_and_street tr address_jp w
                     = (Inr (Some (strip ward), Some (normalize_spaces street)), w')"
    by (simp add: split_address_to_area_and_street_def bind_def ret_def)
  with s show "\<exists>street w'. safe_translate tr (strip rest) ja en w = (Inr street, w')
                 \<and> split_address_to_area_and_street tr address_jp w
                     = (Inr (Some (strip ward), Some (normalize_spaces street)), w')"
    by blast
next
  show "match_ward (replace1 address_jp TOKYO_TO []) = None \<longleftrightarrow>
            \<not> (\<exists>ward rest. ward \<noteq> [] \<and> 0x0A \<notin> set ward
                  \<and> replace1 address_jp TOKYO_TO [] = ward @ KU # rest)"
    by (rule match_ward_None)
qed

theorem split_address_cases_witness:
  "addr_setagaya \<noteq> []
   \<and> addr_setagaya = [] @ TOKYO_TO @ [0x4E16, 0x7530, 0x8C37, 0x533A, 0x7389, 0x5824, 0xFF12]
   \<and> \<not> contains ([] @ butlast TOKYO_TO) TOKYO_TO
   \<and> replace1 addr_setagaya TOKYO_TO [] = [] @ [0x4E16, 0x7530, 0x8C37, 0x533A, 0x7389, 0x5824, 0xFF12]
   \<and> match_ward (replace1 addr_setagaya TOKYO_TO [])
        = Some ([0x4E16, 0x7530, 0x8C37], [0x7389, 0x5824, 0xFF12])
   \<and> (\<exists>street w'.
         safe_translate tagging_service (strip [0x7389, 0x5824, 0xFF12]) ja en fresh_world
           = (Inr street, w')
         \<and> split_address_to_area_and_street tagging_service addr_setagaya fresh_world
           = (Inr (Some (strip [0x4E16, 0x7530, 0x8C37]), Some (normalize_spaces street)), w'))
   \<and> addr_hachioji \<noteq> []
   \<and> match_ward (replace1 addr_hachioji TOKYO_TO []) = None
   \<and> (\<exists>street w'.
         split_address_to_area_and_street tagging_service addr_hachioji fresh_world
           = (Inr (None, Some street), w')
         \<and> whole_address_text tagging_service addr_hachioji street)
   \<and> \<not> contains [0x516B, 0x738B, 0x5B50, 0x5E02] TOKYO_TO
   \<and> replace1 [0x516B, 0x738B, 0x5B50, 0x5E02] TOKYO_TO [] = [0x516B, 0x738B, 0x5B50, 0x5E02]"
proof -
  have n1: "addr_setagaya \<noteq> []" and n2: "addr_hachioji \<noteq> []"
    and n3: "[0x516B, 0x738B, 0x5B50, 0x5E02] \<noteq> ([]::ustr)"
    by (simp_all add: addr_setagaya_def addr_hachioji_def)
  have p1: "addr_setagaya = [] @ TOKYO_TO @ [0x4E16, 0x7530, 0x8C37, 0x533A, 0x7389, 0x5824, 0xFF12]
      \<and> \<not> contains ([] @ butlast TOKYO_TO) TOKYO_TO"
    by (simp add: addr_eval)
  have p3: "\<not> contains [0x516B, 0x738B, 0x5B50, 0x5E02] TOKYO_TO"
    by (simp add: addr_eval)
  have m1: "match_ward (replace1 addr_setagaya TOKYO_TO [])
        = Some ([0x4E16, 0x7530, 0x8C37], [0x7389, 0x5824, 0xFF12])"
    by (simp add: addr_eval)
  have m2: "match_ward (replace1 addr_hachioji TOKYO_TO []) = None"
    by (simp add: addr_eval)
  note t1 = split_address_cases [OF n1, of tagging_service fresh_world]
  note t2 = split_address_cases [OF n2, of tagging_service fresh_world]
  note t3 = split_address_cases [OF n3, of tagging_service fresh_world]
  note a = t1[THEN conjunct2, THEN conjunct1, rule_format]
  have r1: "replace1 addr_setagaya TOKYO_TO []
       = [] @ [0x4E16, 0x7530, 0x8C37, 0x533A, 0x7389, 0x5824, 0xFF12]"
    by (rule a) (rule p1)
  note b = t1[THEN conjunct2, THEN conjunct2, THEN conjunct2, THEN conjunct1, rule_format, OF m1]
  have s1: "\<exists>street w'.
         safe_translate tagging_service (strip [0x7389, 0x5824, 0xFF12]) ja en fresh_world
           = (Inr street, w')
         \<and> split_address_to_area_and_street tagging_service addr_setagaya fresh_world
           = (Inr (Some (strip [0x4E16, 0x7530, 0x8C37]), Some (normalize_spaces street)), w')"
    by (rule b[THEN conjunct2])
  have s2: "\<exists>street w'.
         split_address_to_area_and_street tagging_service addr_hachioji fresh_world
           = (Inr (None, Some street), w')
         \<and> whole_address_text tagging_service addr_hachioji street"
    by (rule t2[THEN conjunct2, THEN conjunct2, THEN conjunct1, rule_format, OF m2])
  have r3: "replace1 [0x516B, 0x738B, 0x5B50, 0x5E02] TOKYO_TO [] = [0x516B, 0x738B, 0x5B50, 0x5E02]"
    by (rule t3[THEN conjunct1, rule_format, OF p3])
  from p1 have p1a: "addr_setagaya = [] @ TOKYO_TO @ [0x4E16, 0x7530, 0x8C37, 0x533A, 0x7389, 0x5824, 0xFF12]"
    and p1b: "\<not> contains ([] @ butlast TOKYO_TO) TOKYO_TO" by (rule conjunct1, rule conjunct2)
  show ?thesis
    by (intro conjI) (rule n1 p1a p1b r1 m1 s1 n2 m2 s2 p3 r3)+
qed

text \<open>
  When the pattern does not match, the street is not the prefix-stripped text: the
  address comes back with its prefix.
\<close>

theorem split_address_keeps_prefix:
  "match_ward (replace1 addr_hachioji TOKYO_TO []) = None
   \<and> split_address_to_area_and_street tagging_service addr_hachioji fresh_world
        = (Inr (None, Some addr_hachioji), fresh_world)
   \<and> split_address_to_area_and_street tagging_service addr_hachioji fresh_world
        \<noteq> (Inr (None, Some (replace1 addr_hachioji TOKYO_TO [])), fresh_world)"
  by (simp add: split_address_to_area_and_street_def addr_eval ret_def)

section \<open>Invariants of the pipeline\<close>

lemma triple_bind:
  assumes "triple I m R" "\<And>x. R x \<Longrightarrow> triple I (f x) Q"
  shows "triple I (bind m f) Q"
  unfolding triple_def
proof (intro allI impI)
  fix w assume i: "I w"
  obtain r w' where mw: "m w = (r, w')" by (cases "m w")
  from assms(1) i mw have i': "I w'" by (auto simp: triple_def)
  show "I (snd (bind m f w)) \<and> (\<forall>x. fst (bind m f w) = Inr x \<longrightarrow> Q x)"
  proof (cases r)
    case (Inl e)
    with mw i' show ?thesis by (simp add: bind_def)
  next
    case (Inr x)
    with assms(1) i mw have "R x" by (auto simp: triple_def)
    from assms(2)[OF this] i' have "I (snd (f x w')) \<and> (\<forall>y. fst (f x w') = Inr y \<longrightarrow> Q y)"
      by (simp add: triple_def)
    with mw Inr show ?thesis by (simp add: bind_def)
  qed
qed

lemma triple_ret: "Q x \<Longrightarrow> triple I (ret x) Q"
  by (simp add: triple_def ret_def)

lemma triple_lift: "(\<And>x. r = Inr x \<Longrightarrow> Q x) \<Longrightarrow> triple I (lift r) Q"
  by (simp add: triple_def lift_def)

lemma triple_weaken: "triple I m Q \<Longrightarrow> (\<And>x. Q x \<Longrightarrow> Q' x) \<Longrightarrow> triple I m Q'"
  by (simp add: triple_def)

lemma triple_when_truthy:
  "(\<And>v. triple I (f v) Q) \<Longrightarrow> triple I d Q \<Longrightarrow> triple I (when_truthy x f d) Q"
  by (simp add: when_truthy_def split: option.splits)

lemma triple_safe_translate: "stable I \<Longrightarrow> triple I (safe_translate tr text a b) (\<lambda>_. True)"
  by (auto simp: triple_def stable_def safe_translate_def split: prod.splits sum.splits)

lemma triple_find: "triple I (airtable_find_by_name t n) (\<lambda>_. True)"
  by (simp add: triple_def airtable_find_by_name_def split: list.splits)

lemma triple_create: "stable I \<Longrightarrow> triple I (airtable_create t n) (\<lambda>_. True)"
  by (simp add: triple_def stable_def airtable_create_def split: prod.splits)
    (metis snd_conv)

lemma triple_get_or_create: "stable I \<Longrightarrow> triple I (airtable_get_or_create_by_name t n) (\<lambda>_. True)"
  unfolding airtable_get_or_create_by_name_def
  by (rule triple_bind[OF triple_find]) (simp add: triple_ret triple_create)

lemma stable_True: "stable (\<lambda>_. True)"
  by (simp add: stable_def)

lemma stable_ids: "stable (\<lambda>w. ids_nonempty (db w))"
  by (auto simp: stable_def ids_nonempty_def table_create_def Let_def U_def)


lemma resolver_stable: "resolver I G \<Longrightarrow> stable I"
  by (simp add: resolver_def)

lemma resolver_find: "resolver I G \<Longrightarrow> triple I (airtable_find_by_name t n) G"
  by (simp add: resolver_def)

lemma resolver_create: "resolver I G \<Longrightarrow> triple I (airtable_create t n) G"
  by (simp add: resolver_def)

lemma resolver_None: "resolver I G \<Longrightarrow> triple I (ret None) G"
  by (simp add: resolver_def triple_ret)

lemma resolver_get_or_create:
  assumes "resolver I G"
  shows "triple I (airtable_get_or_create_by_name t n) G"
  unfolding airtable_get_or_create_by_name_def
  by (rule triple_bind[OF resolver_find[OF assms]])
    (simp add: triple_ret resolver_create[OF assms])

lemma triple_extract_name: "stable I \<Longrightarrow> triple I (extract_name tr sp) (\<lambda>_. True)"
  by (simp add: extract_name_def Let_def triple_safe_translate triple_ret)

lemma resolver_layout: "resolver I G \<Longrightarrow> triple I (get_layout_record_id cfg x) G"
  by (simp add: get_layout_record_id_def Let_def resolver_None resolver_find)

lemma triple_split_address:
  assumes "stable I"
  shows "triple I (split_address_to_area_and_street tr a) (\<lambda>_. True)"
proof -
  have "triple I (bind (safe_translate tr r ja en) (\<lambda>street_en. ret (x, Some (normalize_spaces street_en))))
          (\<lambda>_. True)" for r and x :: "ustr option"
    by (rule triple_bind[OF triple_safe_translate[OF assms]]) (simp add: triple_ret)
  then show ?thesis
    by (simp add: split_address_to_area_and_street_def Let_def triple_ret split: option.splits)
qed

lemma station_name_triple:
  assumes "stable I"
  shows "triple I (case map_of STATION_ALIASES s of
                     Some alias \<Rightarrow> ret alias
                   | None \<Rightarrow> bind (safe_translate tr s ja en) (\<lambda>en_text. ret (normalize_station_en en_text)))
           (\<lambda>_. True)"
proof (cases "map_of STATION_ALIASES s")
  case None
  then show ?thesis
    by (simp add: triple_bind[OF triple_safe_translate[OF assms]] triple_ret)
next
  case (Some a)
  then show ?thesis by (simp add: triple_ret)
qed

lemma resolver_area:
  assumes "resolver I G"
  shows "triple I (get_or_create_area_id tr cfg ward) G"
proof -
  have n: "triple I (case map_of AREA_ALIASES ward of
                     Some alias \<Rightarrow> ret alias
                   | None \<Rightarrow> bind (safe_translate tr ward ja en) (\<lambda>en_text. ret (title en_text)))
           (\<lambda>_. True)"
    by (cases "map_of AREA_ALIASES ward")
      (simp_all add: triple_bind[OF triple_safe_translate[OF resolver_stable[OF assms]]] triple_ret)
  have "triple I (bind (case map_of AREA_ALIASES ward of
                     Some alias \<Rightarrow> ret alias
                   | None \<Rightarrow> bind (safe_translate tr ward ja en) (\<lambda>en_text. ret (title en_text)))
          (\<lambda>en_name. airtable_get_or_create_by_name (areas_table_id cfg) en_name)) G"
    by (rule triple_bind[OF n]) (rule resolver_get_or_create[OF assms])
  then show ?thesis
    by (simp add: get_or_create_area_id_def resolver_None[OF assms])
qed

lemma resolver_category: "resolver I G \<Longrightarrow> triple I (get_property_category_id cfg x) G"
  by (simp add: get_property_category_id_def resolver_None resolver_find)

lemma resolver_kind: "resolver I G \<Longrightarrow> triple I (get_property_kind_id cfg x) G"
  by (simp add: get_property_kind_id_def resolver_None resolver_find)

lemma resolver_price_range: "resolver I G \<Longrightarrow> triple I (get_price_range_id cfg x) G"
  by (simp add: get_price_range_id_def resolver_None resolver_find)

lemma stations_loop_Cons:
  "stations_loop tr (d # ds) items =
     (let raw = get_text_strip d in
      if raw = [] then stations_loop tr ds items
      else
        let st_part = normalize_spaces (if contains raw [0x2F] then last_segment raw else raw)
        in bind (lift (parse_minutes st_part)) (\<lambda>minutes.
             let st_clean = strip (replace (remove_walk st_part) [EKI] [])
             in if st_clean = [] then stations_loop tr ds items
                else
                  bind (case map_of STATION_ALIASES st_clean of
                          Some alias \<Rightarrow> ret alias
                        | None \<Rightarrow>
                            bind (safe_translate tr st_clean ja en) (\<lambda>en_text.
                              ret (normalize_station_en en_text))) (\<lambda>station_en.
                    if 2 \<le> length (items @ [(station_en, minutes)])
                    then ret (items @ [(station_en, minutes)])
                    else stations_loop tr ds (items @ [(station_en, minutes)]))))"
  by (rule ext) (simp add: Let_def bind_def ret_def lift_def split: prod.splits sum.splits)

lemma stations_loop_Nil: "stations_loop tr [] items = ret items"
  by (rule ext) (simp add: ret_def)

lemma stations_loop_triple:
  assumes "stable I"
  shows "length items < 2 \<Longrightarrow> triple I (stations_loop tr ds items) (\<lambda>r. length r \<le> 2)"
proof (induction ds arbitrary: items)
  case Nil
  then show ?case by (simp add: stations_loop_Nil triple_ret)
next
  case (Cons d ds)
  have step: "triple I
      (bind (case map_of STATION_ALIASES s of
               Some alias \<Rightarrow> ret alias
             | None \<Rightarrow> bind (safe_translate tr s ja en) (\<lambda>en_text. ret (normalize_station_en en_text)))
         (\<lambda>station_en.
            if 2 \<le> length (items @ [(station_en, m)])
            then ret (items @ [(station_en, m)])
            else stations_loop tr ds (items @ [(station_en, m)])))
      (\<lambda>r. length r \<le> 2)" for s m
  proof (rule triple_bind[OF station_name_triple[OF assms]])
    fix x :: ustr
    show "triple I (if 2 \<le> length (items @ [(x, m)]) then ret (items @ [(x, m)])
                    else stations_loop tr ds (items @ [(x, m)])) (\<lambda>r. length r \<le> 2)"
    proof (cases "2 \<le> length (items @ [(x, m)])")
      case True
      have "length (items @ [(x, m)]) \<le> 2" using Cons.prems by simp
      then have "triple I (ret (items @ [(x, m)])) (\<lambda>r. length r \<le> 2)" by (rule triple_ret)
      then show ?thesis by (simp only: True if_True)
    next
      case False
      then have "length (items @ [(x, m)]) < 2" by (rule iffD1[OF not_le])
      from Cons.IH[OF this] show ?thesis by (simp only: False if_False)
    qed
  qed
  have inner: "triple I
      (let st_clean = strip (replace (remove_walk p) [EKI] [])
       in if st_clean = [] then stations_loop tr ds items
          else
            bind (case map_of STATION_ALIASES st_clean of
                    Some alias \<Rightarrow> ret alias
                  | None \<Rightarrow>
                      bind (safe_translate tr st_clean ja en) (\<lambda>en_text.
                        ret (normalize_station_en en_text))) (\<lambda>station_en.
              if 2 \<le> length (items @ [(station_en, m)])
              then ret (items @ [(station_en, m)])
              else stations_loop tr ds (items @ [(station_en, m)])))
      (\<lambda>r. length r \<le> 2)" for p m
    unfolding Let_def using Cons.IH[OF Cons.prems] step by simp
  have "triple I
      (bind (lift (parse_minutes p)) (\<lambda>minutes.
         let st_clean = strip (replace (remove_walk p) [EKI] [])
         in if st_clean = [] then stations_loop tr ds items
            else
              bind (case map_of STATION_ALIASES st_clean of
                      Some alias \<Rightarrow> ret alias
                    | None \<Rightarrow>
                        bind (safe_translate tr st_clean ja en) (\<lambda>en_text.
                          ret (normalize_station_en en_text))) (\<lambda>station_en.
                if 2 \<le> length (items @ [(station_en, minutes)])
                then ret (items @ [(station_en, minutes)])
                else stations_loop tr ds (items @ [(station_en, minutes)]))))
      (\<lambda>r. length r \<le> 2)" for p
    by (rule triple_bind[OF triple_lift[of _ "\<lambda>_. True"]]) (simp_all add: inner)
  then show ?case
    unfolding stations_loop_Cons Let_def
    using Cons.IH[OF Cons.prems] by simp
qed

lemma triple_extract_stations:
  "stable I \<Longrightarrow> triple I (extract_stations_and_minutes tr sp) (\<lambda>r. length r \<le> 2)"
  by (simp add: extract_stations_and_minutes_def triple_ret stations_loop_triple split: option.splits)

lemma resolve_stations_Cons:
  "resolve_stations cfg ((st_en, mins) # stations) station_ids minutes_list =
     bind (airtable_get_or_create_by_name (stations_table_id cfg) st_en) (\<lambda>st_id.
       resolve_stations cfg stations (station_ids @ [st_id]) (minutes_list @ [mins]))"
  by (rule ext) (simp add: bind_def split: prod.splits sum.splits)

lemma resolve_stations_Nil:
  "resolve_stations cfg [] station_ids minutes_list = ret (station_ids, minutes_list)"
  by (rule ext) (simp add: ret_def)

lemma resolve_stations_triple:
  assumes "resolver I G"
  shows "list_all G ids \<Longrightarrow>
         triple I (resolve_stations cfg stations ids ms)
           (\<lambda>(a, b). list_all G a \<and> length a = length ids + length stations
                      \<and> length b = length ms + length stations)"
proof (induction stations arbitrary: ids ms)
  case Nil
  then show ?case by (simp add: resolve_stations_Nil triple_ret)
next
  case (Cons s stations)
  obtain st_en mins where s: "s = (st_en, mins)" by (cases s)
  show ?case
    unfolding s resolve_stations_Cons
  proof (rule triple_bind[OF resolver_get_or_create[OF assms]])
    fix x assume "G x"
    with Cons.prems have "list_all G (ids @ [x])" by simp
    from Cons.IH[OF this, of "ms @ [mins]"]
    show "triple I (resolve_stations cfg stations (ids @ [x]) (ms @ [mins]))
           (\<lambda>(a, b). list_all G a \<and> length a = length ids + length ((st_en, mins) # stations)
                      \<and> length b = length ms + length ((st_en, mins) # stations))"
      by (rule triple_weaken) auto
  qed
qed

lemma pad_to_two_props:
  "length (pad_to_two xs) = max 2 (length xs) \<and> (list_all G xs \<and> G None \<longrightarrow> list_all G (pad_to_two xs))"
proof (induction xs rule: pad_to_two.induct)
  case (1 xs)
  show ?case
  proof (cases "length xs < 2")
    case True
    with 1 show ?thesis by (subst (1 2) pad_to_two.simps) auto
  next
    case False
    then show ?thesis by (subst (1 2) pad_to_two.simps) auto
  qed
qed

lemma triple_bind_pair:
  assumes "triple I m R" "\<And>a b. R (a, b) \<Longrightarrow> triple I (f a b) Q"
  shows "triple I (bind m (\<lambda>(a, b). f a b)) Q"
proof (rule triple_bind[OF assms(1)])
  fix x assume "R x"
  then show "triple I (case x of (a, b) \<Rightarrow> f a b) Q"
    using assms(2) by (cases x) simp
qed

lemma triple_lift_any: "triple I (lift r) (\<lambda>_. True)"
  by (simp add: triple_lift)

lemma resolver_G_None: "resolver I G \<Longrightarrow> G None"
  by (simp add: resolver_def)

lemma gather_triple:
  assumes "resolver I G"
  shows "triple I (gather tr cfg url sp)
           (\<lambda>l. G (l_layout_id l) \<and> G (l_area_id l) \<and> list_all G (l_station_ids l)
                \<and> length (l_station_ids l) = 2 \<and> length (l_minutes_list l) = 2
                \<and> G (l_prop_cat_id l) \<and> G (l_kind_id l) \<and> G (l_pr_id l))"
proof -
  note st = resolver_stable[OF assms]
  note none = resolver_None[OF assms]
  have nil: "list_all G []" by simp
  show ?thesis
    unfolding gather_def
    apply (rule triple_bind[OF triple_extract_name[OF st]])
    apply (rule triple_bind_pair[OF triple_lift_any])
    apply (rule triple_bind_pair[OF triple_lift_any])
    apply (rule triple_bind[OF resolver_layout[OF assms]])
    apply (rule triple_bind[OF triple_lift_any])
    apply (rule triple_bind_pair[OF triple_split_address[OF st]])
    apply (rule triple_bind[OF triple_when_truthy[OF resolver_area[OF assms] none]])
    apply (rule triple_bind_pair[OF triple_lift_any])
    apply (rule triple_bind[OF triple_extract_stations[OF st]])
    apply (rule triple_bind_pair[OF resolve_stations_triple[OF assms nil]])
    apply (rule triple_bind[OF triple_when_truthy[OF resolver_category[OF assms] none]])
    apply (rule triple_bind[OF triple_when_truthy[OF resolver_kind[OF assms] none]])
    apply (rule triple_bind[OF resolver_price_range[OF assms]])
    apply (rule triple_ret)
    apply (simp add: pad_to_two_props resolver_G_None[OF assms])
    done
qed

section \<open>Sample runs\<close>

lemmas run_eval = bind_def ret_def lift_def bind_e_def when_truthy_def

lemmas word_eval = HO_def TO_def FUN_def EKI_def EKI_TOHO_def MADORI_def SENYU_MENSEKI_def
  TATEMONO_SHUBETSU_def SHOZAICHI_def

lemma digit_facts: "is_digit 0x33" "\<not> is_digit 0x5206" "decimal_value 0x33 = Some 3"
  by (simp_all add: is_digit_def decimal_value_def decimal_zeros_def)

lemma s_walk: "match_walk_at [0x6B69, 0x33, 0x5206] = Some ([0x33], [])"
  by (simp add: match_walk_at_def word_eval is_space_def digit_facts)

lemma s_nowalk:
  "match_walk_at [0x5357, 0x65B0, 0x5BBF, 0x99C5, 0x20, 0x6B69, 0x33, 0x5206] = None"
  "match_walk_at [0x65B0, 0x5BBF, 0x99C5, 0x20, 0x6B69, 0x33, 0x5206] = None"
  "match_walk_at [0x5BBF, 0x99C5, 0x20, 0x6B69, 0x33, 0x5206] = None"
  "match_walk_at [0x99C5, 0x20, 0x6B69, 0x33, 0x5206] = None"
  "match_walk_at [0x20, 0x6B69, 0x33, 0x5206] = None"
  by (simp_all add: match_walk_at_def word_eval)

lemma s_int: "int_of_digits [0x33] = Inr 3"
  by (simp add: int_of_digits_def int_max_str_digits_def decimal_number_def digit_facts)

lemma s_minutes: "parse_minutes station_text = Inr (Some 3)"
  by (simp add: parse_minutes_def station_text_def s_walk s_nowalk s_int)

lemma s_remove: "remove_walk station_text = [0x5357, 0x65B0, 0x5BBF, 0x99C5, 0x20]"
  by (simp add: station_text_def s_walk s_nowalk)

lemma s_clean: "strip (replace [0x5357, 0x65B0, 0x5BBF, 0x99C5, 0x20] [EKI] []) = [0x5357, 0x65B0, 0x5BBF]"
  by (simp add: word_eval string_eval)

lemma s_alias: "map_of STATION_ALIASES [0x5357, 0x65B0, 0x5BBF] = Some (U ''Minami-Shinjuku'')"
  by (simp add: STATION_ALIASES_def)

lemma s_text: "get_text_strip station_cell \<noteq> []"
  "normalize_spaces (if contains (get_text_strip station_cell) [0x2F]
                     then last_segment (get_text_strip station_cell)
                     else get_text_strip station_cell) = station_text"
  by (simp_all add: get_text_strip_def station_cell_def station_text_def last_segment_def string_eval)

lemma s_loop: "stations_loop tr [station_cell] [] w = (Inr [(U ''Minami-Shinjuku'', Some 3)], w)"
  apply (simp only: stations_loop.simps(2) Let_def s_text if_False s_minutes sum.case s_remove s_clean)
  apply (simp add: s_alias ret_def)
  done

lemma s_find: "find_th station_page EKI_TOHO
   = Some \<lparr>th_string = Some EKI_TOHO, th_next_td = Some \<lparr>td_text = station_cell, td_reads = [station_cell]\<rparr>\<rparr>"
  "find_th station_page MADORI = None" "find_th station_page SENYU_MENSEKI = None"
  "find_th station_page TATEMONO_SHUBETSU = None"
  by (simp_all add: find_th_def station_page_def empty_page_def word_eval)

lemma s_extract: "extract_stations_and_minutes tr station_page w = (Inr [(U ''Minami-Shinjuku'', Some 3)], w)"
  by (simp add: extract_stations_and_minutes_def s_find s_loop del: stations_loop.simps)

lemma s_fields: "h1_title station_page = None" "rent_emphasis station_page = None"
  "note_info_spans station_page = []" "note_list_spans station_page = []"
  "view_table_rows station_page = []" "gallery_imgs station_page = []"
  by (simp_all add: station_page_def empty_page_def)

lemma s1: "extract_name tr station_page w = (Inr (U ''N/A''), w)"
  by (simp add: extract_name_def s_fields run_eval)

lemma s2: "extract_rent_and_fee station_page = Inr (U ''0'', U ''0'')"
  by (simp add: extract_rent_and_fee_def s_fields run_eval)

lemma s3: "extract_layout_and_size station_page = Inr (U ''N/A'', U ''N/A'')"
  by (simp add: extract_layout_and_size_def s_find run_eval)

lemma s5: "extract_address_jp station_page = Inr None"
  by (simp add: extract_address_jp_def s_fields)

lemma s7: "deposit_and_key_money (note_list_spans station_page) (U ''0'') (U ''0'') = Inr (U ''0'', U ''0'')"
  by (simp add: s_fields)

lemma s9: "extract_property_category_jp station_page = None" "extract_images station_page = (None, None, [])"
  by (simp_all add: extract_property_category_jp_def extract_images_def s_find s_fields)

lemma t_find_layout: "get_layout_record_id sample_cfg (U ''N/A'') sample_world = (Inr None, sample_world)"
  by (simp add: get_layout_record_id_def airtable_find_by_name_def table_all_def sample_world_def
      sample_store_def sample_cfg_def ONE_ROOM_def string_eval)

lemma t_station_missing: "table_all (db sample_world) (U ''tblStations'') (U ''Minami-Shinjuku'') = []"
  by (simp add: table_all_def sample_world_def sample_store_def U_def)

lemma t_create: "airtable_create (U ''tblStations'') (U ''Minami-Shinjuku'') sample_world
    = (Inr (Some (U ''rec0'')), world_after)"
  by (simp add: airtable_create_def table_create_def sample_world_def sample_store_def world_after_def
      digits.simps U_def Let_def)

lemma t_get_or_create: "airtable_get_or_create_by_name (U ''tblStations'') (U ''Minami-Shinjuku'') sample_world
    = (Inr (Some (U ''rec0'')), world_after)"
  using t_station_missing t_create
  by (simp add: airtable_get_or_create_by_name_def airtable_find_by_name_def bind_def U_def)

lemma t_resolve: "resolve_stations sample_cfg [(U ''Minami-Shinjuku'', Some 3)] [] [] sample_world
    = (Inr ([Some (U ''rec0'')], [Some 3]), world_after)"
  using t_get_or_create by (simp add: sample_cfg_def)

lemma t_kind: "map_property_kind_from_url sample_url = Some (U ''For Rent'')" "U ''For Rent'' \<noteq> []"
  by (simp_all add: map_property_kind_from_url_def sample_url_def U_def)

lemma t_find_kind: "get_property_kind_id sample_cfg (U ''For Rent'') world_after = (Inr (Some (U ''recKind'')), world_after)"
  by (simp add: get_property_kind_id_def airtable_find_by_name_def table_all_def world_after_def sample_cfg_def U_def)

lemma t_rent: "int_of_text (replace (U ''0'') (U '','') []) = Inr 0"
  by (simp add: int_of_text_def text_eval int_of_digits_def int_max_str_digits_def decimal_number_def)

lemma t_find_price: "get_price_range_id sample_cfg (price_range_label 0) world_after = (Inr None, world_after)"
  by (simp add: get_price_range_id_def airtable_find_by_name_def table_all_def world_after_def sample_cfg_def
    price_range_label_def yen_def U_def)

lemma t_pad: "pad_to_two [Some (U ''rec0'')] = [Some (U ''rec0''), None]" "pad_to_two [Some (3::nat)] = [Some 3, None]"
  by (simp_all add: pad_to_two.simps)

lemma split_empty: "split_address_to_area_and_street tr [] w = (Inr (None, None), w)"
  by (simp add: split_address_to_area_and_street_def ret_def)

lemma gather_station:
  "gather tagging_service sample_cfg sample_url station_page sample_world = (Inr station_locals, world_after)"
  by (simp add: gather_def run_eval s1 s2 s3 t_find_layout s5 split_empty s7 s_extract t_resolve s9
      t_kind t_find_kind t_rent t_find_price t_pad station_locals_def del: resolve_stations.simps)

lemma build_station: "build_payload station_locals = Inr station_payload"
  by (simp add: build_payload_def station_locals_def station_payload_def item_def bind_e_def link_def
      when_truthy_def image_list_def optional_int_def U_def)

lemma run_station:
  "get_suumo_data (\<lambda>url. Inr station_page) tagging_service sample_cfg sample_url sample_world
     = (Inr station_payload, world_after)"
  by (simp add: get_suumo_data_def bind_def lift_def gather_station build_station)

lemma sibling:
  "get_or_create_station_id tagging_service sample_cfg [0x5357, 0x65B0, 0x5BBF] sample_world
     = (Inr (Some (U ''recOld'')), sample_world)"
  by (simp add: get_or_create_station_id_def s_alias run_eval airtable_find_by_name_def table_all_def
      sample_world_def sample_store_def sample_cfg_def string_eval)

lemma e_fields: "h1_title empty_page = None" "rent_emphasis empty_page = None"
  "note_info_spans empty_page = []" "note_list_spans empty_page = []"
  "view_table_rows empty_page = []" "gallery_imgs empty_page = []" "th_cells empty_page = []"
  by (simp_all add: empty_page_def)

lemma e1: "extract_name tr empty_page w = (Inr (U ''N/A''), w)"
  by (simp add: extract_name_def e_fields run_eval)

lemma e2: "extract_rent_and_fee empty_page = Inr (U ''0'', U ''0'')"
  by (simp add: extract_rent_and_fee_def e_fields run_eval)

lemma e_find: "find_th empty_page label = None"
  by (simp add: find_th_def e_fields)

lemma e3: "extract_layout_and_size empty_page = Inr (U ''N/A'', U ''N/A'')"
  by (simp add: extract_layout_and_size_def e_find run_eval)

lemma e4: "get_layout_record_id sample_cfg (U ''N/A'') fresh_world = (Inr None, fresh_world)"
  by (simp add: get_layout_record_id_def airtable_find_by_name_def table_all_def fresh_world_def
      empty_store_def sample_cfg_def ONE_ROOM_def string_eval)

lemma e5: "extract_address_jp empty_page = Inr None"
  by (simp add: extract_address_jp_def e_fields)

lemma e7: "deposit_and_key_money (note_list_spans empty_page) (U ''0'') (U ''0'') = Inr (U ''0'', U ''0'')"
  by (simp add: e_fields)

lemma e8: "extract_stations_and_minutes tr empty_page w = (Inr [], w)"
  by (simp add: extract_stations_and_minutes_def e_find ret_def)

lemma e9: "extract_property_category_jp empty_page = None" "extract_images empty_page = (None, None, [])"
  by (simp_all add: extract_property_category_jp_def extract_images_def e_find e_fields)

lemma e11: "get_property_kind_id sample_cfg (U ''For Rent'') fresh_world = (Inr None, fresh_world)"
  by (simp add: get_property_kind_id_def airtable_find_by_name_def table_all_def fresh_world_def
      empty_store_def U_def)

lemma e13: "get_price_range_id sample_cfg (price_range_label 0) fresh_world = (Inr None, fresh_world)"
  by (simp add: get_price_range_id_def airtable_find_by_name_def table_all_def fresh_world_def
      empty_store_def price_range_label_def yen_def)

lemma e14: "pad_to_two [] = [None, None]"
  by (simp add: pad_to_two.simps)

lemma gather_empty:
  "gather tagging_service sample_cfg sample_url empty_page fresh_world = (Inr empty_locals, fresh_world)"
  by (simp add: gather_def run_eval e1 e2 e3 e4 e5 split_empty e7 e8 e9 t_kind e11 t_rent e13 e14
      empty_locals_def)

lemma build_empty: "build_payload empty_locals = Inr empty_payload"
  by (simp add: build_payload_def empty_locals_def empty_payload_def item_def bind_e_def link_def
      when_truthy_def image_list_def optional_int_def)

lemma run_empty:
  "get_suumo_data (\<lambda>url. Inr empty_page) tagging_service sample_cfg sample_url fresh_world
     = (Inr empty_payload, fresh_world)"
  by (simp add: get_suumo_data_def bind_def lift_def gather_empty build_empty)
lemma resolver_trivial: "resolver (\<lambda>_. True) (\<lambda>_. True)"
  by (simp add: resolver_def stable_def triple_def)

lemma good_find: "triple (\<lambda>w. ids_nonempty (db w)) (airtable_find_by_name t n) good_id"
  unfolding triple_def
proof (intro allI impI conjI)
  fix w :: "'a world" assume i: "ids_nonempty (db w)"
  show "ids_nonempty (db (snd (airtable_find_by_name t n w)))"
    using i by (simp add: airtable_find_by_name_def split: list.splits)
  fix x assume r: "fst (airtable_find_by_name t n w) = Inr x"
  show "good_id x"
  proof (cases "n = []")
    case True
    with r have "x = None" by (simp add: airtable_find_by_name_def)
    then show ?thesis by (simp add: good_id_def)
  next
    case False
    show ?thesis
    proof (cases "table_all (db w) t n")
      case Nil
      with r False have "x = None" by (simp add: airtable_find_by_name_def)
      then show ?thesis by (simp add: good_id_def)
    next
      case (Cons rid others)
      then have "rid \<noteq> []" using table_all_nonempty[OF i, of rid t n] by simp
      moreover from r False Cons have "x = Some rid" by (simp add: airtable_find_by_name_def)
      ultimately show ?thesis by (simp add: good_id_def)
    qed
  qed
qed

lemma good_create: "triple (\<lambda>w. ids_nonempty (db w)) (airtable_create t n) good_id"
  unfolding triple_def
proof (intro allI impI conjI)
  fix w :: "'a world" assume i: "ids_nonempty (db w)"
  have "airtable_create t n w
        = (Inr (Some (fst (table_create (db w) t n))), w\<lparr>db := snd (table_create (db w) t n)\<rparr>)"
    by (simp add: airtable_create_def split: prod.splits)
  moreover have "ids_nonempty (db (w\<lparr>db := snd (table_create (db w) t n)\<rparr>))"
    by (rule stable_ids[unfolded stable_def, THEN conjunct2, rule_format, OF i])
  ultimately show "ids_nonempty (db (snd (airtable_create t n w)))" by simp
  fix x assume "fst (airtable_create t n w) = Inr x"
  then have "x = Some (fst (table_create (db w) t n))"
    by (simp add: airtable_create_def split: prod.splits)
  then show "good_id x" by (simp add: good_id_def fresh_id_nonempty)
qed

lemma resolver_ids: "resolver (\<lambda>w. ids_nonempty (db w)) good_id"
  by (simp add: resolver_def stable_ids good_find good_create) (simp add: good_id_def)

lemma triple_result: "triple I m Q \<Longrightarrow> I w \<Longrightarrow> m w = (Inr x, w') \<Longrightarrow> Q x"
  by (auto simp: triple_def)

lemma link_good: "good_id x \<Longrightarrow> link x = spec_link x"
  by (cases x) (simp_all add: link_def when_truthy_def good_id_def)

lemma get_suumo_data_Inr:
  assumes "get_suumo_data http_get tr cfg url w = (Inr p, w')"
  shows "\<exists>sp l. http_get url = Inr sp \<and> gather tr cfg url sp w = (Inr l, w')
           \<and> build_payload l = Inr p"
proof (cases "http_get url")
  case (Inl e)
  with assms show ?thesis by (simp add: get_suumo_data_def bind_def lift_def)
next
  case (Inr sp)
  obtain r w1 where g: "gather tr cfg url sp w = (r, w1)" by (cases "gather tr cfg url sp w")
  show ?thesis
  proof (cases r)
    case (Inl e)
    with assms Inr g show ?thesis by (simp add: get_suumo_data_def bind_def lift_def)
  next
    case l: (Inr l)
    with assms Inr g have "build_payload l = Inr p" "w1 = w'"
      by (simp_all add: get_suumo_data_def bind_def lift_def)
    with Inr g l show ?thesis by simp
  qed
qed

lemma build_payload_returns:
  assumes "length (l_station_ids l) = 2" "length (l_minutes_list l) = 2"
  shows "build_payload l =
       Inr [(U ''Name'', PyStr (l_name l)),
            (U ''Property Price'', PyStr (l_rent l)),
            (U ''Property Management Fee'', PyStr (l_mgmt l)),
            (U ''Property Layout'', link (l_layout_id l)),
            (U ''Property Size'', PyStr (l_size l)),
            (U ''Property Locations'', link (l_area_id l)),
            (U ''Location'', PyStr (case l_street_en l of Some s \<Rightarrow> s | None \<Rightarrow> [])),
            (U ''Property Deposit'', PyStr (l_deposit l)),
            (U ''Property Key Money'', PyStr (l_key_money l)),
            (U ''Property Cover Image'', image_list (l_cover_img l)),
            (U ''Property Plan Image'', image_list (l_plan_img l)),
            (U ''Property Images'', PyList (map image_dict (l_gallery_imgs l))),
            (U ''Access One: Train Station'', link (l_station_ids l ! 0)),
            (U ''Access One: Minutes to Walk'', optional_int (l_minutes_list l ! 0)),
            (U ''Access Two: Train Station'', link (l_station_ids l ! 1)),
            (U ''Access Two: Minutes to Walk'', optional_int (l_minutes_list l ! 1)),
            (U ''Property Categories'', link (l_prop_cat_id l)),
            (U ''Property Type'', link (l_kind_id l)),
            (U ''Property Price Range'', link (l_pr_id l))]"
  using assms by (simp add: build_payload_def bind_e_def item_def)

lemma payload_keys_distinct: "distinct payload_keys \<and> length payload_keys = 19"
  by (simp add: payload_keys_def U_def)

lemma pad_to_two_append: "pad_to_two xs = xs @ replicate (2 - length xs) None"
proof (induction xs rule: pad_to_two.induct)
  case (1 xs)
  show ?case
  proof (cases "length xs < 2")
    case True
    then have "2 - length xs = Suc (2 - length (xs @ [None]))" by simp
    then have "xs @ replicate (2 - length xs) None
               = (xs @ [None]) @ replicate (2 - length (xs @ [None])) None"
      by (simp only: replicate_Suc append_assoc append_Cons append_Nil)
    with 1[OF True] True show ?thesis by (subst pad_to_two.simps) simp
  next
    case False
    then show ?thesis by (subst pad_to_two.simps) simp
  qed
qed

lemma ids_sample: "ids_nonempty (db sample_world)"
  by (simp add: ids_nonempty_def sample_world_def sample_store_def U_def)

lemma payload_fields:
  assumes "get_suumo_data http_get tr cfg url w = (Inr p, w')" and "resolver I G" and "I w"
  shows "\<exists>sp l. http_get url = Inr sp \<and> gather tr cfg url sp w = (Inr l, w')
           \<and> build_payload l = Inr p
           \<and> length (l_station_ids l) = 2 \<and> length (l_minutes_list l) = 2
           \<and> G (l_layout_id l) \<and> G (l_area_id l) \<and> G (l_station_ids l ! 0)
           \<and> G (l_station_ids l ! 1) \<and> G (l_prop_cat_id l) \<and> G (l_kind_id l) \<and> G (l_pr_id l)"
proof -
  from get_suumo_data_Inr[OF assms(1)] obtain sp l where
    h: "http_get url = Inr sp" and g: "gather tr cfg url sp w = (Inr l, w')"
    and b: "build_payload l = Inr p" by blast
  note q = triple_result[OF gather_triple[OF assms(2)] assms(3) g]
  from q have len: "length (l_station_ids l) = 2" by simp
  from q have "list_all G (l_station_ids l)" by simp
  with len have "G (l_station_ids l ! 0)" "G (l_station_ids l ! 1)"
    by (simp_all add: list_all_length)
  with h g b q show ?thesis by blast
qed

section \<open>The payload\<close>

text \<open>
  Claim C3. Every station name of a run is looked up under its hyphenated form, then under
  its space-separated form, and a record is created only when both lookups fail. The
  pipeline does not do so. The store holds the station of the page under the name
  \<open>Minami Shinjuku\<close> and under no other. \<open>get_or_create_station_id\<close> finds that record and
  leaves the store as it is; \<open>get_suumo_data\<close> looks up \<open>Minami-Shinjuku\<close> only, creates a
  second record under that name and links the payload to it.
\<close>

theorem pipeline_station_duplicate:
  "table_all (db sample_world) (stations_table_id sample_cfg) (U ''Minami-Shinjuku'') = []
   \<and> table_all (db sample_world) (stations_table_id sample_cfg) (U ''Minami Shinjuku'') = [U ''recOld'']
   \<and> get_or_create_station_id tagging_service sample_cfg [0x5357, 0x65B0, 0x5BBF] sample_world
       = (Inr (Some (U ''recOld'')), sample_world)
   \<and> get_suumo_data (\<lambda>url. Inr station_page) tagging_service sample_cfg sample_url sample_world
       = (Inr station_payload, world_after)
   \<and> map_of station_payload (U ''Access One: Train Station'') = Some (PyList [PyStr (U ''rec0'')])
   \<and> rows (db world_after)
       = rows (db sample_world) @ [(U ''tblStations'', U ''rec0'', U ''Minami-Shinjuku'')]"
proof -
  have a: "table_all (db sample_world) (stations_table_id sample_cfg) (U ''Minami-Shinjuku'') = []"
    by (simp add: table_all_def sample_world_def sample_store_def sample_cfg_def U_def)
  have b: "table_all (db sample_world) (stations_table_id sample_cfg) (U ''Minami Shinjuku'')
           = [U ''recOld'']"
    by (simp add: table_all_def sample_world_def sample_store_def sample_cfg_def U_def)
  have c: "map_of station_payload (U ''Access One: Train Station'') = Some (PyList [PyStr (U ''rec0'')])"
    by (simp add: station_payload_def U_def)
  have d: "rows (db world_after)
           = rows (db sample_world) @ [(U ''tblStations'', U ''rec0'', U ''Minami-Shinjuku'')]"
    by (simp add: world_after_def sample_world_def sample_store_def)
  from a b sibling run_station c d show ?thesis by (intro conjI)
qed

text \<open>
  Claim C4. In every payload that a run builds, each of the six link fields follows one
  convention: the one-element list of the resolved identifier, the empty list when there
  is none, never the null value. The identifiers of the store are non-empty strings, as
  record identifiers are.
\<close>

theorem link_fields_convention:
  assumes "get_suumo_data http_get tr cfg url w = (Inr p, w')" and "ids_nonempty (db w)"
  shows "(\<exists>sp l. http_get url = Inr sp \<and> gather tr cfg url sp w = (Inr l, w')
            \<and> map_of p (U ''Property Layout'') = Some (spec_link (l_layout_id l))
            \<and> map_of p (U ''Property Locations'') = Some (spec_link (l_area_id l))
            \<and> map_of p (U ''Access One: Train Station'') = Some (spec_link (l_station_ids l ! 0))
            \<and> map_of p (U ''Access Two: Train Station'') = Some (spec_link (l_station_ids l ! 1))
            \<and> map_of p (U ''Property Categories'') = Some (spec_link (l_prop_cat_id l))
            \<and> map_of p (U ''Property Type'') = Some (spec_link (l_kind_id l))
            \<and> map_of p (U ''Property Price Range'') = Some (spec_link (l_pr_id l)))
         \<and> spec_link x \<noteq> PyNone"
proof -
  from payload_fields[OF assms(1) resolver_ids, OF assms(2)] obtain sp l where
    h: "http_get url = Inr sp" and g: "gather tr cfg url sp w = (Inr l, w')"
    and b: "build_payload l = Inr p"
    and len: "length (l_station_ids l) = 2" "length (l_minutes_list l) = 2"
    and good: "good_id (l_layout_id l)" "good_id (l_area_id l)" "good_id (l_station_ids l ! 0)"
      "good_id (l_station_ids l ! 1)" "good_id (l_prop_cat_id l)" "good_id (l_kind_id l)"
      "good_id (l_pr_id l)"
    by blast
  from b build_payload_returns[OF len] have p: "p = [(U ''Name'', PyStr (l_name l)),
            (U ''Property Price'', PyStr (l_rent l)),
            (U ''Property Management Fee'', PyStr (l_mgmt l)),
            (U ''Property Layout'', link (l_layout_id l)),
            (U ''Property Size'', PyStr (l_size l)),
            (U ''Property Locations'', link (l_area_id l)),
            (U ''Location'', PyStr (case l_street_en l of Some s \<Rightarrow> s | None \<Rightarrow> [])),
            (U ''Property Deposit'', PyStr (l_deposit l)),
            (U ''Property Key Money'', PyStr (l_key_money l)),
            (U ''Property Cover Image'', image_list (l_cover_img l)),
            (U ''Property Plan Image'', image_list (l_plan_img l)),
            (U ''Property Images'', PyList (map image_dict (l_gallery_imgs l))),
            (U ''Access One: Train Station'', link (l_station_ids l ! 0)),
            (U ''Access One: Minutes to Walk'', optional_int (l_minutes_list l ! 0)),
            (U ''Access Two: Train Station'', link (l_station_ids l ! 1)),
            (U ''Access Two: Minutes to Walk'', optional_int (l_minutes_list l ! 1)),
            (U ''Property Categories'', link (l_prop_cat_id l)),
            (U ''Property Type'', link (l_kind_id l)),
            (U ''Property Price Range'', link (l_pr_id l))]"
    by simp
  have f1: "map_of p (U ''Property Layout'') = Some (spec_link (l_layout_id l))"
    unfolding p using link_good[OF good(1)] by (simp add: U_def)
  have f2: "map_of p (U ''Property Locations'') = Some (spec_link (l_area_id l))"
    unfolding p using link_good[OF good(2)] by (simp add: U_def)
  have f3: "map_of p (U ''Access One: Train Station'') = Some (spec_link (l_station_ids l ! 0))"
    unfolding p using link_good[OF good(3)] by (simp add: U_def)
  have f4: "map_of p (U ''Access Two: Train Station'') = Some (spec_link (l_station_ids l ! 1))"
    unfolding p using link_good[OF good(4)] by (simp add: U_def)
  have f5: "map_of p (U ''Property Categories'') = Some (spec_link (l_prop_cat_id l))"
    unfolding p using link_good[OF good(5)] by (simp add: U_def)
  have f6: "map_of p (U ''Property Type'') = Some (spec_link (l_kind_id l))"
    unfolding p using link_good[OF good(6)] by (simp add: U_def)
  have f7: "map_of p (U ''Property Price Range'') = Some (spec_link (l_pr_id l))"
    unfolding p using link_good[OF good(7)] by (simp add: U_def)
  have n: "spec_link x \<noteq> PyNone" by (cases x) simp_all
  from h g f1 f2 f3 f4 f5 f6 f7 n show ?thesis by blast
qed

theorem link_fields_convention_witness:
  "ids_nonempty (db sample_world)
   \<and> get_suumo_data (\<lambda>url. Inr station_page) tagging_service sample_cfg sample_url sample_world
       = (Inr station_payload, world_after)
   \<and> map_of station_payload (U ''Property Layout'') = Some (PyList [])
   \<and> map_of station_payload (U ''Property Locations'') = Some (PyList [])
   \<and> map_of station_payload (U ''Access One: Train Station'') = Some (PyList [PyStr (U ''rec0'')])
   \<and> map_of station_payload (U ''Access Two: Train Station'') = Some (PyList [])
   \<and> map_of station_payload (U ''Property Categories'') = Some (PyList [])
   \<and> map_of station_payload (U ''Property Type'') = Some (PyList [PyStr (U ''recKind'')])
   \<and> map_of station_payload (U ''Property Price Range'') = Some (PyList [])"
proof -
  from link_fields_convention[OF run_station ids_sample, THEN conjunct1] obtain sp l where
    g: "gather tagging_service sample_cfg sample_url sp sample_world = (Inr l, world_after)"
    and sp: "Inr station_page = (Inr sp :: exn + soup)"
    and f: "map_of station_payload (U ''Property Layout'') = Some (spec_link (l_layout_id l))"
      "map_of station_payload (U ''Property Locations'') = Some (spec_link (l_area_id l))"
      "map_of station_payload (U ''Access One: Train Station'') = Some (spec_link (l_station_ids l ! 0))"
      "map_of station_payload (U ''Access Two: Train Station'') = Some (spec_link (l_station_ids l ! 1))"
      "map_of station_payload (U ''Property Categories'') = Some (spec_link (l_prop_cat_id l))"
      "map_of station_payload (U ''Property Type'') = Some (spec_link (l_kind_id l))"
      "map_of station_payload (U ''Property Price Range'') = Some (spec_link (l_pr_id l))"
    by blast
  from sp have "sp = station_page" by simp
  with g gather_station have l: "l = station_locals" by simp
  have v: "spec_link (l_layout_id station_locals) = PyList []"
    "spec_link (l_area_id station_locals) = PyList []"
    "spec_link (l_station_ids station_locals ! 0) = PyList [PyStr (U ''rec0'')]"
    "spec_link (l_station_ids station_locals ! 1) = PyList []"
    "spec_link (l_prop_cat_id station_locals) = PyList []"
    "spec_link (l_kind_id station_locals) = PyList [PyStr (U ''recKind'')]"
    "spec_link (l_pr_id station_locals) = PyList []"
    by (simp_all add: station_locals_def)
  from f show ?thesis unfolding l v using ids_sample run_station by (intro conjI)
qed

text \<open>
  Claim C9. Whatever the page holds, the payload that \<open>get_suumo_data\<close> returns has the
  same keys, those of the dictionary literal, each once. The two lists of the stations have
  exactly two entries when the payload is built, since the padding loop fills a list up to
  two with \<open>None\<close>; so the four access fields are there, the station fields made of the two
  slots and the minutes the two slots as they are, \<open>None\<close> included.
\<close>

theorem payload_keys_fixed:
  assumes "get_suumo_data http_get tr cfg url w = (Inr p, w')"
  shows "map fst p = payload_keys \<and> distinct payload_keys
         \<and> (\<exists>sp l. http_get url = Inr sp \<and> gather tr cfg url sp w = (Inr l, w')
              \<and> length (l_station_ids l) = 2 \<and> length (l_minutes_list l) = 2
              \<and> map_of p (U ''Access One: Train Station'') = Some (link (l_station_ids l ! 0))
              \<and> map_of p (U ''Access One: Minutes to Walk'') = Some (optional_int (l_minutes_list l ! 0))
              \<and> map_of p (U ''Access Two: Train Station'') = Some (link (l_station_ids l ! 1))
              \<and> map_of p (U ''Access Two: Minutes to Walk'') = Some (optional_int (l_minutes_list l ! 1)))
         \<and> pad_to_two xs = xs @ replicate (2 - length xs) None
         \<and> optional_int None = PyNone"
proof -
  have t: "True" by simp
  from payload_fields[OF assms resolver_trivial, OF t] obtain sp l where
    h: "http_get url = Inr sp" and g: "gather tr cfg url sp w = (Inr l, w')"
    and b: "build_payload l = Inr p"
    and len: "length (l_station_ids l) = 2" "length (l_minutes_list l) = 2"
    by blast
  from b build_payload_returns[OF len] have p: "p = [(U ''Name'', PyStr (l_name l)),
            (U ''Property Price'', PyStr (l_rent l)),
            (U ''Property Management Fee'', PyStr (l_mgmt l)),
            (U ''Property Layout'', link (l_layout_id l)),
            (U ''Property Size'', PyStr (l_size l)),
            (U ''Property Locations'', link (l_area_id l)),
            (U ''Location'', PyStr (case l_street_en l of Some s \<Rightarrow> s | None \<Rightarrow> [])),
            (U ''Property Deposit'', PyStr (l_deposit l)),
            (U ''Property Key Money'', PyStr (l_key_money l)),
            (U ''Property Cover Image'', image_list (l_cover_img l)),
            (U ''Property Plan Image'', image_list (l_plan_img l)),
            (U ''Property Images'', PyList (map image_dict (l_gallery_imgs l))),
            (U ''Access One: Train Station'', link (l_station_ids l ! 0)),
            (U ''Access One: Minutes to Walk'', optional_int (l_minutes_list l ! 0)),
            (U ''Access Two: Train Station'', link (l_station_ids l ! 1)),
            (U ''Access Two: Minutes to Walk'', optional_int (l_minutes_list l ! 1)),
            (U ''Property Categories'', link (l_prop_cat_id l)),
            (U ''Property Type'', link (l_kind_id l)),
            (U ''Property Price Range'', link (l_pr_id l))]"
    by simp
  have k: "map fst p = payload_keys" unfolding p by (simp add: payload_keys_def)
  have d: "distinct payload_keys" using payload_keys_distinct by simp
  have f1: "map_of p (U ''Access One: Train Station'') = Some (link (l_station_ids l ! 0))"
    unfolding p by (simp add: U_def)
  have f2: "map_of p (U ''Access One: Minutes to Walk'') = Some (optional_int (l_minutes_list l ! 0))"
    unfolding p by (simp add: U_def)
  have f3: "map_of p (U ''Access Two: Train Station'') = Some (link (l_station_ids l ! 1))"
    unfolding p by (simp add: U_def)
  have f4: "map_of p (U ''Access Two: Minutes to Walk'') = Some (optional_int (l_minutes_list l ! 1))"
    unfolding p by (simp add: U_def)
  have o: "optional_int None = PyNone" by (simp add: optional_int_def)
  from h g len f1 f2 f3 f4 have e: "\<exists>sp l. http_get url = Inr sp \<and> gather tr cfg url sp w = (Inr l, w')
              \<and> length (l_station_ids l) = 2 \<and> length (l_minutes_list l) = 2
              \<and> map_of p (U ''Access One: Train Station'') = Some (link (l_station_ids l ! 0))
              \<and> map_of p (U ''Access One: Minutes to Walk'') = Some (optional_int (l_minutes_list l ! 0))
              \<and> map_of p (U ''Access Two: Train Station'') = Some (link (l_station_ids l ! 1))
              \<and> map_of p (U ''Access Two: Minutes to Walk'') = Some (optional_int (l_minutes_list l ! 1))"
    by blast
  from k d e pad_to_two_append o show ?thesis by (intro conjI)
qed

theorem payload_keys_fixed_witness:
  "get_suumo_data (\<lambda>url. Inr empty_page) tagging_service sample_cfg sample_url fresh_world
     = (Inr empty_payload, fresh_world)
   \<and> map fst empty_payload = payload_keys
   \<and> map_of empty_payload (U ''Access One: Train Station'') = Some (PyList [])
   \<and> map_of empty_payload (U ''Access One: Minutes to Walk'') = Some PyNone
   \<and> map_of empty_payload (U ''Access Two: Train Station'') = Some (PyList [])
   \<and> map_of empty_payload (U ''Access Two: Minutes to Walk'') = Some PyNone"
proof -
  note t = payload_keys_fixed[OF run_empty]
  have k: "map fst empty_payload = payload_keys" by (rule t[THEN conjunct1])
  have f: "map_of empty_payload (U ''Access One: Train Station'') = Some (PyList [])"
    "map_of empty_payload (U ''Access One: Minutes to Walk'') = Some PyNone"
    "map_of empty_payload (U ''Access Two: Train Station'') = Some (PyList [])"
    "map_of empty_payload (U ''Access Two: Minutes to Walk'') = Some PyNone"
    by (simp_all add: empty_payload_def U_def)
  from run_empty k f show ?thesis by (intro conjI)
qed

end
